theory Spec2Isabelle
  imports Main
begin

section \<open>JavaScript values\<close>

text \<open>
  The values that the script stores in the robot's brain and reads back, and the values
  that \<^verbatim>\<open>JSON.parse\<close> produces. A value is a primitive (\<^verbatim>\<open>undefined\<close>, a boolean, a number,
  a string), \<^verbatim>\<open>null\<close>, an array or an object; an object is the list of its own enumerable
  properties in enumeration order, none of which is a function. A number value \<open>PNum n\<close>
  stands for the double nearest to the integer \<open>n\<close> (timestamps in milliseconds, lease
  durations in seconds); numbers with a fractional part are outside this model.
\<close>

datatype prim = PUndefined | PBool bool | PNum int | PStr string

datatype jsval =
    JPrim prim
  | JNull
  | JArr "jsval list"
  | JObj "(string \<times> jsval) list"

abbreviation JUndefined :: jsval where
  "JUndefined \<equiv> JPrim PUndefined"

abbreviation JBool :: "bool \<Rightarrow> jsval" where
  "JBool b \<equiv> JPrim (PBool b)"

abbreviation JNum :: "int \<Rightarrow> jsval" where
  "JNum n \<equiv> JPrim (PNum n)"

abbreviation JStr :: "string \<Rightarrow> jsval" where
  "JStr s \<equiv> JPrim (PStr s)"

text \<open>
  The numbers that the script computes with: \<^verbatim>\<open>NaN\<close>, the two infinities, and \<open>Num n\<close> for
  a finite double whose value is the integer \<open>n\<close>. The sign of zero is not kept: a negative
  zero is not below zero, and its string is that of zero.
\<close>

datatype number = NaN | Num int | PosInfinity | NegInfinity

text \<open>
  The double nearest to an integer: the integer rounded to 53 significant bits, to
  nearest, ties to the even significand; a magnitude that rounds to \<open>2 ^ 1024\<close> or more is
  an infinity. This is also how the product and the difference of two such doubles are
  rounded, since their exact values are integers.
\<close>

fun bit_length :: "nat \<Rightarrow> nat" where
  "bit_length n = (if n = 0 then 0 else Suc (bit_length (n div 2)))"

definition round_nat :: "nat \<Rightarrow> nat" where
  "round_nat n =
     (let e = bit_length n - 53; q = n div 2 ^ e; r = n mod 2 ^ e
      in if e = 0 then n
         else if 2 ^ (e - 1) < r \<or> (r = 2 ^ (e - 1) \<and> odd q) then (q + 1) * 2 ^ e
         else q * 2 ^ e)"

definition double_of_int :: "int \<Rightarrow> number" where
  "double_of_int i =
     (let m = round_nat (nat \<bar>i\<bar>)
      in if 2 ^ 1024 \<le> m then (if i < 0 then NegInfinity else PosInfinity)
         else Num (if i < 0 then - int m else int m))"

text \<open>\<^verbatim>\<open>Number.isSafeInteger\<close>: the integers that doubles hold without rounding, together
  with their neighbours.\<close>

definition safe_integer :: "int \<Rightarrow> bool" where
  "safe_integer n = (\<bar>n\<bar> < 2 ^ 53)"

text \<open>\<^verbatim>\<open>typeof(v) === 'object'\<close>: true of objects, arrays and \<^verbatim>\<open>null\<close>.\<close>

fun typeof_object :: "jsval \<Rightarrow> bool" where
  "typeof_object (JPrim p) = False"
| "typeof_object v = True"

definition digit :: "nat \<Rightarrow> char" where
  "digit d = ''0123456789'' ! d"

fun show_nat :: "nat \<Rightarrow> string" where
  "show_nat n = (if n < 10 then [digit n] else show_nat (n div 10) @ [digit (n mod 10)])"

definition show_int :: "int \<Rightarrow> string" where
  "show_int i = (if i < 0 then CHR ''-'' # show_nat (nat (- i)) else show_nat (nat i))"

text \<open>
  The string of a number. An integer of magnitude below \<open>10 ^ 21\<close> is printed in full. A
  larger one is printed with an exponent, from the shortest decimal digits that still
  denote the same double: \<open>shortest m n k\<close> looks for them among the multiples of
  \<open>10 ^ (n - k)\<close> next to \<open>m\<close>, for \<open>k\<close> digits and more, where \<open>n\<close> is the number of digits
  of \<open>m\<close>; seventeen digits always suffice.
\<close>

function shortest :: "nat \<Rightarrow> nat \<Rightarrow> nat \<Rightarrow> nat" where
  "shortest m n k =
     (let p = 10 ^ (n - k);
          lo = (m div p) * p;
          hi = lo + p;
          glo = (double_of_int (int lo) = Num (int m));
          ghi = (double_of_int (int hi) = Num (int m))
      in if glo \<and> ghi then
           (if m - lo < hi - m then lo
            else if hi - m < m - lo then hi
            else if even (m div p) then lo else hi)
         else if glo then lo
         else if ghi then hi
         else if 17 \<le> k then m
         else shortest m n (Suc k))"
  by pat_completeness auto
termination
  by (relation "measure (\<lambda>(m, n, k). 17 - k)") auto

definition exp_string :: "nat \<Rightarrow> string" where
  "exp_string m =
     (let s = show_nat (shortest m (length (show_nat m)) 1)
      in case rev (dropWhile (\<lambda>c. c = CHR ''0'') (rev s)) of
           [] \<Rightarrow> []
         | d # ds \<Rightarrow>
             d # (if ds = [] then [] else CHR ''.'' # ds) @ ''e+'' @ show_nat (length s - 1))"

fun show_number :: "number \<Rightarrow> string" where
  "show_number NaN = ''NaN''"
| "show_number PosInfinity = ''Infinity''"
| "show_number NegInfinity = ''-Infinity''"
| "show_number (Num n) =
     (if \<bar>n\<bar> < 10 ^ 21 then show_int n
      else (if n < 0 then ''-'' else []) @ exp_string (nat \<bar>n\<bar>))"

fun join :: "string \<Rightarrow> string list \<Rightarrow> string" where
  "join sep [] = []"
| "join sep [x] = x"
| "join sep (x # y # ys) = x @ sep @ join sep (y # ys)"

text \<open>The string of a primitive, as string concatenation and \<^verbatim>\<open>String\<close> give it.\<close>

fun prim_string :: "prim \<Rightarrow> string" where
  "prim_string PUndefined = ''undefined''"
| "prim_string (PBool b) = (if b then ''true'' else ''false'')"
| "prim_string (PNum n) = show_number (double_of_int n)"
| "prim_string (PStr s) = s"

text \<open>
  The conversion of a value to a string, where the language applies it (to a property
  key, and to an array on its way to a number). An array joins its elements with commas,
  \<^verbatim>\<open>null\<close> and \<^verbatim>\<open>undefined\<close> elements as empty strings. An object is \<^verbatim>\<open>[object Object]\<close>,
  unless it has a property of its own named \<^verbatim>\<open>toString\<close>: that one is no function, and
  the conversion raises a TypeError (\<open>None\<close>).
\<close>

fun all_some :: "'a option list \<Rightarrow> 'a list option" where
  "all_some [] = Some []"
| "all_some (None # xs) = None"
| "all_some (Some x # xs) = (case all_some xs of None \<Rightarrow> None | Some ys \<Rightarrow> Some (x # ys))"

fun to_string :: "jsval \<Rightarrow> string option" where
  "to_string (JPrim p) = Some (prim_string p)"
| "to_string JNull = Some ''null''"
| "to_string (JArr xs) =
     map_option (join '','')
       (all_some (map (\<lambda>x. if x = JUndefined \<or> x = JNull then Some [] else to_string x) xs))"
| "to_string (JObj kvs) =
     (if list_ex (\<lambda>(k, v). k = ''toString'') kvs then None else Some ''[object Object]'')"

text \<open>
  The conversion of a value to a number, as the operators \<^verbatim>\<open>*\<close> and \<^verbatim>\<open>-\<close> apply it to
  their operands; \<open>None\<close> is a TypeError. The conversion of a string to a number is the
  engine's; it is the parameter \<open>str_num\<close>. An array is converted through its string, an
  object is \<^verbatim>\<open>NaN\<close> unless its conversion to a primitive raises.
\<close>

fun to_number :: "(string \<Rightarrow> number) \<Rightarrow> jsval \<Rightarrow> number option" where
  "to_number str_num (JPrim PUndefined) = Some NaN"
| "to_number str_num (JPrim (PBool b)) = Some (Num (if b then 1 else 0))"
| "to_number str_num (JPrim (PNum n)) = Some (double_of_int n)"
| "to_number str_num (JPrim (PStr s)) = Some (str_num s)"
| "to_number str_num JNull = Some (Num 0)"
| "to_number str_num (JArr xs) = map_option str_num (to_string (JArr xs))"
| "to_number str_num (JObj kvs) = map_option (\<lambda>s. NaN) (to_string (JObj kvs))"

text \<open>The product and the difference of two numbers, as doubles.\<close>

fun num_mul :: "number \<Rightarrow> number \<Rightarrow> number" where
  "num_mul (Num x) (Num y) = double_of_int (x * y)"
| "num_mul NaN b = NaN"
| "num_mul a NaN = NaN"
| "num_mul PosInfinity (Num y) = (if y = 0 then NaN else if y < 0 then NegInfinity else PosInfinity)"
| "num_mul NegInfinity (Num y) = (if y = 0 then NaN else if y < 0 then PosInfinity else NegInfinity)"
| "num_mul (Num x) PosInfinity = (if x = 0 then NaN else if x < 0 then NegInfinity else PosInfinity)"
| "num_mul (Num x) NegInfinity = (if x = 0 then NaN else if x < 0 then PosInfinity else NegInfinity)"
| "num_mul PosInfinity PosInfinity = PosInfinity"
| "num_mul PosInfinity NegInfinity = NegInfinity"
| "num_mul NegInfinity PosInfinity = NegInfinity"
| "num_mul NegInfinity NegInfinity = PosInfinity"

fun num_sub :: "number \<Rightarrow> number \<Rightarrow> number" where
  "num_sub (Num x) (Num y) = double_of_int (x - y)"
| "num_sub NaN b = NaN"
| "num_sub a NaN = NaN"
| "num_sub PosInfinity PosInfinity = NaN"
| "num_sub NegInfinity NegInfinity = NaN"
| "num_sub PosInfinity b = PosInfinity"
| "num_sub NegInfinity b = NegInfinity"
| "num_sub (Num x) PosInfinity = NegInfinity"
| "num_sub (Num x) NegInfinity = PosInfinity"

text \<open>\<^verbatim>\<open>n < 0\<close>: false when \<open>n\<close> is \<^verbatim>\<open>NaN\<close>.\<close>

fun num_negative :: "number \<Rightarrow> bool" where
  "num_negative (Num x) = (x < 0)"
| "num_negative NegInfinity = True"
| "num_negative v = False"

text \<open>
  \<^verbatim>\<open>Math.floor(a / b)\<close> for a double \<open>a\<close> of integer value and a positive integer \<open>b\<close>: the
  quotient is rounded to 53 significant bits before its floor is taken. With \<open>e\<close> the
  exponent of the quotient's last bit, \<open>num / den\<close> is the quotient scaled by \<open>2 ^ (- e)\<close>
  and \<open>m\<close> its rounding to nearest, ties to even.
\<close>

definition shl :: "int \<Rightarrow> int \<Rightarrow> int" where
  "shl x e = x * 2 ^ nat e"

definition floor_quotient :: "int \<Rightarrow> int \<Rightarrow> int" where
  "floor_quotient a b =
     (if a = 0 then 0
      else
        let n = \<bar>a\<bar>;
            k = int (bit_length (nat n)) - int (bit_length (nat b));
            e = (if shl b k \<le> shl n (- k) then k - 52 else k - 53);
            num = shl n (- e);
            den = shl b e;
            m0 = num div den;
            rem = num mod den;
            m = (if den < 2 * rem \<or> (2 * rem = den \<and> odd m0) then m0 + 1 else m0);
            s = (if a < 0 then - m else m)
        in shl s e div 2 ^ nat (- e))"

text \<open>
  Reading one of the properties \<^verbatim>\<open>lease_duration\<close>, \<^verbatim>\<open>requested\<close>, \<^verbatim>\<open>vault_path\<close> of a
  value. On \<^verbatim>\<open>null\<close> and \<^verbatim>\<open>undefined\<close> the read raises a TypeError (\<open>None\<close>); another
  primitive or an array has no property of these names.
\<close>

fun get_prop :: "jsval \<Rightarrow> string \<Rightarrow> jsval option" where
  "get_prop (JPrim PUndefined) k = None"
| "get_prop JNull k = None"
| "get_prop (JObj kvs) k = (case map_of kvs k of None \<Rightarrow> Some JUndefined | Some v \<Rightarrow> Some v)"
| "get_prop v k = Some JUndefined"

section \<open>Strings\<close>

text \<open>\<^verbatim>\<open>toLowerCase\<close> on the ASCII letters; the tokens that the command pattern captures
  (\<^verbatim>\<open>\w+\<close>) and the pattern \<^verbatim>\<open>/Slackbot/i\<close> involve no other letters.\<close>

definition lower_char :: "char \<Rightarrow> char" where
  "lower_char c =
     (case map_of (zip ''ABCDEFGHIJKLMNOPQRSTUVWXYZ'' ''abcdefghijklmnopqrstuvwxyz'') c of
        Some l \<Rightarrow> l
      | None \<Rightarrow> c)"

definition toLowerCase :: "string \<Rightarrow> string" where
  "toLowerCase s = map lower_char s"

fun starts_with :: "string \<Rightarrow> string \<Rightarrow> bool" where
  "starts_with [] s = True"
| "starts_with (p # ps) [] = False"
| "starts_with (p # ps) (c # cs) = (p = c \<and> starts_with ps cs)"

fun has_infix :: "string \<Rightarrow> string \<Rightarrow> bool" where
  "has_infix p [] = (p = [])"
| "has_infix p (c # cs) = (starts_with p (c # cs) \<or> has_infix p cs)"

text \<open>\<^verbatim>\<open>ua.match(/Slackbot/i) !== null\<close>.\<close>

definition match_Slackbot :: "string \<Rightarrow> bool" where
  "match_Slackbot ua = has_infix ''slackbot'' (toLowerCase ua)"

text \<open>\<^verbatim>\<open>s.replace(/ /g, '')\<close> and \<^verbatim>\<open>s.split(',')[0]\<close>.\<close>

definition remove_spaces :: "string \<Rightarrow> string" where
  "remove_spaces s = filter (\<lambda>c. c \<noteq> CHR '' '') s"

fun split_on :: "char \<Rightarrow> string \<Rightarrow> string list" where
  "split_on sep [] = [[]]"
| "split_on sep (c # cs) =
     (if c = sep then [] # split_on sep cs
      else (case split_on sep cs of
              [] \<Rightarrow> [[c]]
            | piece # pieces \<Rightarrow> (c # piece) # pieces))"

definition first_hop :: "string \<Rightarrow> string" where
  "first_hop s = hd (split_on CHR '','' s)"

section \<open>The brain, requests and the trace of a handler\<close>

text \<open>
  The robot's brain is a keyed store. \<^verbatim>\<open>robot.brain.get\<close> answers \<^verbatim>\<open>null\<close> for a key that
  holds nothing, \<^verbatim>\<open>robot.brain.set\<close> binds a key and \<^verbatim>\<open>robot.brain.remove\<close> unbinds it.
\<close>

type_synonym brain = "string \<rightharpoonup> jsval"

definition brain_get :: "brain \<Rightarrow> string \<Rightarrow> jsval" where
  "brain_get b k = (case b k of None \<Rightarrow> JNull | Some JUndefined \<Rightarrow> JNull | Some v \<Rightarrow> v)"

definition brain_set :: "brain \<Rightarrow> string \<Rightarrow> jsval \<Rightarrow> brain" where
  "brain_set b k v = b(k \<mapsto> v)"

definition brain_remove :: "brain \<Rightarrow> string \<Rightarrow> brain" where
  "brain_remove b k = b(k := None)"

text \<open>An HTTP request to the confirmation route: its headers by lower-case name,
  \<^verbatim>\<open>req.params.nonce\<close> and \<^verbatim>\<open>req.connection.remoteAddress\<close>.\<close>

record request =
  headers :: "string \<rightharpoonup> string"
  params_nonce :: string
  remoteAddress :: string

text \<open>
  The three arguments \<^verbatim>\<open>(err, res, body)\<close> of the callback of \<^verbatim>\<open>robot.http(url).get()\<close>:
  \<open>err\<close> is \<open>Some e\<close> for a truthy error whose string rendering is \<open>e\<close>, \<open>res\<close> is the
  status code of the response (\<open>None\<close> when \<^verbatim>\<open>res\<close> is undefined), \<open>body\<close> is \<open>None\<close> when
  undefined.
\<close>

record http_reply =
  err :: "string option"
  res :: "int option"
  body :: "string option"

text \<open>
  What the environment answers during one run of a handler: the clock
  (\<^verbatim>\<open>new Date().getTime()\<close>), the error that \<^verbatim>\<open>heimdall.allowAccessToIp\<close> (of
  \<^verbatim>\<open>lib/db_heimdall\<close>, which is known here by its interface only) hands to its callback
  (\<open>None\<close> on success, otherwise its \<^verbatim>\<open>util.inspect\<close> rendering), the engine's
  conversion of strings to numbers, the answer of vault, the engine's \<^verbatim>\<open>JSON.parse\<close>
  (\<open>None\<close> when it raises a SyntaxError) and the nonce that
  \<^verbatim>\<open>crypto.createHash('sha256').update(uuid.v4(), 'utf8').digest('hex')\<close> yields.
\<close>

record world =
  now :: int
  acl_err :: "string option"
  str_num :: "string \<Rightarrow> number"
  vault_reply :: http_reply
  JSON_parse :: "string \<Rightarrow> jsval option"
  fresh_nonce :: string

text \<open>A chat message is either a plain string or a call of \<^verbatim>\<open>util.format\<close> with its
  format string and arguments.\<close>

datatype fmt_arg = AStr string | AUndefined

datatype msg_text = Plain string | Format string "fmt_arg list"

text \<open>
  What \<^verbatim>\<open>SecGroupForVaultPath[key]\<close> reads: the name of a security group, \<^verbatim>\<open>undefined\<close>, or,
  for a key that names a member of \<^verbatim>\<open>Object.prototype\<close>, that member.
\<close>

datatype group = GroupName string | NoGroup | InheritedMember string

text \<open>
  The effects of a handler, in order: \<^verbatim>\<open>robot.brain.get(key)\<close>,
  \<^verbatim>\<open>robot.brain.set(key, value)\<close>, \<^verbatim>\<open>robot.brain.remove(key)\<close>, \<^verbatim>\<open>res.send(status)\<close>,
  \<^verbatim>\<open>res.render(view, locals)\<close>, the call of \<^verbatim>\<open>heimdall.allowAccessToIp\<close> with its
  \<^verbatim>\<open>DBSecurityGroupName\<close>, \<^verbatim>\<open>CIDRIP\<close> and \<^verbatim>\<open>ttl\<close>, the request to vault with its URL and its
  \<^verbatim>\<open>X-Vault-Token\<close>, \<^verbatim>\<open>msg.send\<close>, \<^verbatim>\<open>msg.reply\<close> (one event per string), and
  \<^verbatim>\<open>robot.send\<close> to a room.
\<close>

datatype event =
    BrainGet string
  | BrainSet string jsval
  | BrainRemove string
  | SendStatus nat
  | Render string "(string \<times> string) list"
  | AllowAccess group string number
  | HttpGet string string
  | Send msg_text
  | Reply msg_text
  | RoomSend string string

text \<open>A handler returns or raises a TypeError; its result is the brain it leaves, its
  trace up to that point and how it completed.\<close>

datatype completion = Returned | TypeError

record result =
  store :: brain
  trace :: "event list"
  completion :: completion

section \<open>The confirmation route\<close>

definition SecGroupForVaultPath :: "(string \<times> string) list" where
  "SecGroupForVaultPath =
     [(''db_production'', ''db-uwhisp-production''), (''db_test'', ''db-uwhisp-test'')]"

definition Object_prototype_members :: "string list" where
  "Object_prototype_members =
     [''constructor'', ''toString'', ''toLocaleString'', ''valueOf'', ''hasOwnProperty'',
      ''isPrototypeOf'', ''propertyIsEnumerable'', ''__proto__'', ''__defineGetter__'',
      ''__defineSetter__'', ''__lookupGetter__'', ''__lookupSetter__'']"

text \<open>\<^verbatim>\<open>SecGroupForVaultPath[vault_path]\<close>: the value is converted to a property key, which
  raises a TypeError (\<open>None\<close>) when the conversion to a string does.\<close>

definition sec_group :: "jsval \<Rightarrow> group option" where
  "sec_group vault_path =
     (case to_string vault_path of
        None \<Rightarrow> None
      | Some k \<Rightarrow>
          (case map_of SecGroupForVaultPath k of
             Some g \<Rightarrow> Some (GroupName g)
           | None \<Rightarrow>
               if k \<in> set Object_prototype_members then Some (InheritedMember k)
               else Some NoGroup))"

text \<open>\<^verbatim>\<open>util.format('heimdall_access_%s', nonce)\<close>.\<close>

definition brain_key :: "string \<Rightarrow> string" where
  "brain_key nonce = ''heimdall_access_'' @ nonce"

text \<open>Line 54: \<^verbatim>\<open>typeof(access_request) !== 'object' || access_request === null\<close>.\<close>

definition missing :: "jsval \<Rightarrow> bool" where
  "missing access_request = (\<not> typeof_object access_request \<or> access_request = JNull)"

text \<open>Lines 59 to 68: the client's address, with the CIDR suffix.\<close>

definition client_ip :: "request \<Rightarrow> string" where
  "client_ip req =
     (case headers req ''x-real-ip'' of
        Some v \<Rightarrow> remove_spaces v
      | None \<Rightarrow>
          (case headers req ''x-forwarded-for'' of
             Some v \<Rightarrow> remove_spaces (first_hop v)
           | None \<Rightarrow> remoteAddress req)) @ ''/32''"

text \<open>Line 71:
  \<^verbatim>\<open>(access_request.lease_duration * 1000) - (new Date().getTime() - access_request.requested)\<close>,
  for an \<open>access_request\<close> that is an object or an array. The operands are converted from
  left to right; \<open>None\<close> is the TypeError of a conversion.\<close>

definition field :: "jsval \<Rightarrow> string \<Rightarrow> jsval" where
  "field v k = (case get_prop v k of None \<Rightarrow> JUndefined | Some x \<Rightarrow> x)"

definition compute_ttl :: "world \<Rightarrow> jsval \<Rightarrow> number option" where
  "compute_ttl w access_request =
     (case to_number (str_num w) (field access_request ''lease_duration'') of
        None \<Rightarrow> None
      | Some lease_duration \<Rightarrow>
          (case to_number (str_num w) (field access_request ''requested'') of
             None \<Rightarrow> None
           | Some requested \<Rightarrow>
               Some (num_sub (num_mul lease_duration (Num 1000))
                             (num_sub (double_of_int (now w)) requested))))"

text \<open>\<^verbatim>\<open>util.format('%d minutes', Math.floor(ttl / 60000))\<close>.\<close>

fun minutes :: "number \<Rightarrow> string" where
  "minutes (Num t) = show_number (Num (floor_quotient t 60000)) @ '' minutes''"
| "minutes v = show_number v @ '' minutes''"

text \<open>
  The handler of \<^verbatim>\<open>GET /heimdall/access/:nonce\<close>. A request without a user-agent header
  raises a TypeError at \<^verbatim>\<open>req.headers['user-agent'].match\<close>; a record whose fields do not
  convert raises one at line 71 or line 77, before the call of the ACL backend and before
  the key is removed. The callback of \<^verbatim>\<open>heimdall.allowAccessToIp\<close> renders the page; the
  handler itself has removed the key by then, so the rendering is the last event of the
  trace.
\<close>

definition access :: "world \<Rightarrow> request \<Rightarrow> brain \<Rightarrow> result" where
  "access w req b =
     (case headers req ''user-agent'' of
        None \<Rightarrow> \<lparr>store = b, trace = [], completion = TypeError\<rparr>
      | Some ua \<Rightarrow>
          if match_Slackbot ua then \<lparr>store = b, trace = [SendStatus 200], completion = Returned\<rparr>
          else
            let brain_key = brain_key (params_nonce req);
                access_request = brain_get b brain_key
            in
              if missing access_request
              then \<lparr>store = b,
                     trace = [BrainGet brain_key, Render ''not_found'' []],
                     completion = Returned\<rparr>
              else
                let ip = client_ip req in
                  (case compute_ttl w access_request of
                     None \<Rightarrow> \<lparr>store = b, trace = [BrainGet brain_key], completion = TypeError\<rparr>
                   | Some ttl \<Rightarrow>
                       if num_negative ttl
                       then \<lparr>store = brain_remove b brain_key,
                              trace = [BrainGet brain_key, Render ''not_found'' [],
                                       BrainRemove brain_key],
                              completion = Returned\<rparr>
                       else
                         (case sec_group (field access_request ''vault_path'') of
                            None \<Rightarrow>
                              \<lparr>store = b, trace = [BrainGet brain_key], completion = TypeError\<rparr>
                          | Some DBSecurityGroupName \<Rightarrow>
                              \<lparr>store = brain_remove b brain_key,
                               trace =
                                 [BrainGet brain_key,
                                  AllowAccess DBSecurityGroupName ip ttl,
                                  BrainRemove brain_key,
                                  (case acl_err w of
                                     Some e \<Rightarrow> Render ''error'' [(''error'', e)]
                                   | None \<Rightarrow>
                                       Render ''ip_success''
                                         [(''ip'', ip), (''ttl'', minutes ttl)])],
                               completion = Returned\<rparr>)))"

section \<open>The command \<^verbatim>\<open>give me ... access to ... database\<close>\<close>

text \<open>\<^verbatim>\<open>CONFIG.Strings.sorry_dave\<close>, \<^verbatim>\<open>CONFIG.Urls.vault_base_url\<close> and
  \<^verbatim>\<open>CONFIG.Urls.base_url\<close> are parameters.\<close>

record config =
  sorry_dave :: string
  vault_base_url :: string
  base_url :: string

text \<open>
  The message that matched: \<^verbatim>\<open>msg.envelope.user.name\<close>, the vault token (\<open>None\<close> when
  \<^verbatim>\<open>Creds\<close> or \<^verbatim>\<open>Creds.vault_token\<close> is undefined), the two captures \<^verbatim>\<open>msg.match[1]\<close> and
  \<^verbatim>\<open>msg.match[2]\<close>, and whether \<^verbatim>\<open>msg.envelope.room\<close> differs from the user's own room.
\<close>

record message =
  user_name :: string
  vault_token :: "string option"
  match1 :: string
  match2 :: string
  room_differs :: bool

text \<open>
  \<^verbatim>\<open>util.format\<close> on string and undefined arguments: \<^verbatim>\<open>%%\<close> is a percent sign, \<^verbatim>\<open>%s\<close>
  takes the next argument, a directive stays as it is once the arguments are used up, and
  the arguments left over are appended after a space each. The script applies \<^verbatim>\<open>%d\<close>
  to a number only (see \<open>minutes\<close>) and never \<^verbatim>\<open>%j\<close>; only a configured greeting could
  apply one of them to these arguments, and such a message is not rendered (\<open>None\<close>).
\<close>

fun arg_string :: "fmt_arg \<Rightarrow> string" where
  "arg_string (AStr s) = s"
| "arg_string AUndefined = ''undefined''"

fun util_format :: "string \<Rightarrow> fmt_arg list \<Rightarrow> string option" where
  "util_format [] args = Some (concat (map (\<lambda>a. CHR '' '' # arg_string a) args))"
| "util_format [c] args = map_option ((#) c) (util_format [] args)"
| "util_format (c # d # f) args =
     (if c = CHR ''%'' \<and> d = CHR ''%'' then map_option ((#) CHR ''%'') (util_format f args)
      else if c = CHR ''%'' \<and> (d = CHR ''s'' \<or> d = CHR ''d'' \<or> d = CHR ''j'') then
        (case args of
           [] \<Rightarrow> map_option (\<lambda>r. c # d # r) (util_format f [])
         | a # rest \<Rightarrow>
             if d = CHR ''s'' then map_option ((@) (arg_string a)) (util_format f rest)
             else None)
      else map_option ((#) c) (util_format (d # f) args))"

fun render :: "msg_text \<Rightarrow> string option" where
  "render (Plain s) = Some s"
| "render (Format f args) = util_format f args"

text \<open>The two \<^verbatim>\<open>switch\<close> statements, on the lower-cased captures.\<close>

definition access_level :: "string \<Rightarrow> string option" where
  "access_level s =
     (if s = ''read'' \<or> s = ''ro'' then Some ''readonly''
      else if s = ''write'' \<or> s = ''rw'' then Some ''readwrite''
      else if s = ''admin'' then Some ''admin''
      else None)"

definition vault_path_for :: "string \<Rightarrow> string option" where
  "vault_path_for s =
     (if s = ''prod'' \<or> s = ''production'' then Some ''db_production''
      else if s = ''test'' then Some ''db_test''
      else None)"

text \<open>\<^verbatim>\<open>util.format('%s/v1/%s/creds/%s', CONFIG.Urls.vault_base_url, vault_path, level)\<close>.\<close>

definition vault_url :: "config \<Rightarrow> string \<Rightarrow> string \<Rightarrow> string" where
  "vault_url cfg vault_path level =
     vault_base_url cfg @ ''/v1/'' @ vault_path @ ''/creds/'' @ level"

definition unknownError :: "http_reply \<Rightarrow> event list" where
  "unknownError r =
     [Reply (Plain ''An error occurred talking to vault, please try again in a few moments'')] @
     (case res r of
        Some code \<Rightarrow> if code \<noteq> 0 then [Reply (Plain (''Status code: '' @ show_int code))] else []
      | None \<Rightarrow> []) @
     (case err r of Some e \<Rightarrow> [Reply (Plain (''Error: '' @ e))] | None \<Rightarrow> []) @
     (case body r of
        Some bd \<Rightarrow> if bd \<noteq> [] then [Reply (Plain (''Body: '' @ bd))] else []
      | None \<Rightarrow> [])"

text \<open>
  The local function \<^verbatim>\<open>parse\<close>, which pushes one line per primitive field onto
  \<^verbatim>\<open>response\<close> and calls itself on every field whose \<^verbatim>\<open>typeof\<close> is \<^verbatim>\<open>'object'\<close>, that is
  on every field that is no primitive. It walks the own properties of an object, the
  indices of an array and the indices of a string. The call \<^verbatim>\<open>data.hasOwnProperty(k)\<close> raises a TypeError on an object
  that has a property of its own named \<^verbatim>\<open>hasOwnProperty\<close>.
\<close>

definition line :: "string \<Rightarrow> prim \<Rightarrow> string" where
  "line k p =
     (if k = ''username'' \<or> k = ''password'' then ''*'' @ k @ ''*: '' @ prim_string p
      else k @ '': '' @ prim_string p)"

lemma size_member_obj:
  "(k, v) \<in> set kvs \<Longrightarrow> size (v :: jsval) < Suc (size_list (size_prod (\<lambda>_. 0) size) kvs)"
proof -
  assume "(k, v) \<in> set kvs"
  then have "size_prod (\<lambda>_. 0) size (k, v) \<le> size_list (size_prod (\<lambda>_. 0) size) kvs"
    by (rule size_list_estimation') simp
  then show ?thesis by simp
qed

lemma size_member_arr:
  "(i, v) \<in> set (zip ns xs) \<Longrightarrow> size (v :: jsval) < Suc (size_list size xs)"
proof -
  assume "(i, v) \<in> set (zip ns xs)"
  then have "v \<in> set xs" by (auto dest: set_zip_rightD)
  then have "size v \<le> size_list size xs"
    by (rule size_list_estimation') simp
  then show ?thesis by simp
qed

function (sequential) parse :: "jsval \<Rightarrow> string list" where
  "parse (JObj kvs) =
     concat (map (\<lambda>(k, v). case v of JPrim p \<Rightarrow> [line k p] | _ \<Rightarrow> parse v) kvs)"
| "parse (JArr xs) =
     concat (map (\<lambda>(i, v). case v of JPrim p \<Rightarrow> [line (show_nat i) p] | _ \<Rightarrow> parse v)
               (zip [0..<length xs] xs))"
| "parse (JPrim (PStr s)) = map (\<lambda>(i, c). line (show_nat i) (PStr [c])) (zip [0..<length s] s)"
| "parse v = []"
  by pat_completeness auto
termination
  by (relation "measure size") (auto dest: size_member_obj size_member_arr)

fun parse_throws :: "jsval \<Rightarrow> bool" where
  "parse_throws (JObj kvs) =
     (list_ex (\<lambda>(k, v). k = ''hasOwnProperty'') kvs \<or> list_ex (\<lambda>(k, v). parse_throws v) kvs)"
| "parse_throws (JArr xs) = list_ex parse_throws xs"
| "parse_throws v = False"

text \<open>The callback of the request to vault, lines 154 to 233.\<close>

definition vault_callback ::
    "config \<Rightarrow> world \<Rightarrow> message \<Rightarrow> string \<Rightarrow> string \<Rightarrow> brain \<Rightarrow> result" where
  "vault_callback cfg w msg level vault_path b =
     (let r = vault_reply w in
      if err r \<noteq> None then \<lparr>store = b, trace = unknownError r, completion = Returned\<rparr>
      else
        (case res r of
           None \<Rightarrow> \<lparr>store = b, trace = [], completion = TypeError\<rparr>
         | Some code \<Rightarrow>
             if code = 401 \<or> code = 400 \<or> code = 404 then
               \<lparr>store = b,
                trace =
                  [Send (Format
                     (sorry_dave cfg @
                      ''\<newline>You're not authorized to request *%s* access to *%s* database'')
                     [AStr (user_name msg), AStr level, AStr vault_path])],
                completion = Returned\<rparr>
             else if code = 503 then
               \<lparr>store = b,
                trace =
                  [Send (Format
                     (sorry_dave cfg @
                      ''\<newline>Vault is sealed and cannot retreave any data from it'')
                     [AStr (user_name msg)])],
                completion = Returned\<rparr>
             else if code > 299 then
               \<lparr>store = b, trace = unknownError r, completion = Returned\<rparr>
             else
               (case (case body r of None \<Rightarrow> None | Some s \<Rightarrow> JSON_parse w s) of
                  None \<Rightarrow>
                    \<lparr>store = b,
                     trace =
                       [Reply (Plain ''An error occurred parsing the vault response''),
                        Reply (Plain (case body r of None \<Rightarrow> ''undefined'' | Some s \<Rightarrow> s))],
                     completion = Returned\<rparr>
                | Some parsedBody \<Rightarrow>
                    if parse_throws parsedBody then
                      \<lparr>store = b, trace = [], completion = TypeError\<rparr>
                    else
                      let response = ''Here ya go:'' # parse parsedBody;
                          credentials = RoomSend (user_name msg) (join ''\<newline>'' response)
                      in
                        (case get_prop parsedBody ''lease_duration'' of
                           None \<Rightarrow> \<lparr>store = b, trace = [credentials], completion = TypeError\<rparr>
                         | Some lease_duration \<Rightarrow>
                             let nonce = fresh_nonce w;
                                 lease =
                                   JObj [(''vault_path'', JStr vault_path),
                                         (''requested'', JNum (now w)),
                                         (''lease_duration'', lease_duration)]
                             in
                               \<lparr>store = brain_set b (brain_key nonce) lease,
                                trace =
                                  [credentials,
                                   BrainSet (brain_key nonce) lease,
                                   RoomSend (user_name msg)
                                     (''Direct your browser here to enable access to DB from your current IP address\<newline>''
                                      @ base_url cfg @ ''heimdall/access/'' @ nonce)] @
                                  (if room_differs msg
                                   then [Reply (Plain ''I've sent the access credentials in a private chat'')]
                                   else []),
                                completion = Returned\<rparr>))))"

text \<open>The listener, lines 93 to 234. In the \<^verbatim>\<open>default\<close> branch of the first \<^verbatim>\<open>switch\<close> the
  variable \<^verbatim>\<open>level\<close> is still undefined.\<close>

definition respond :: "config \<Rightarrow> world \<Rightarrow> message \<Rightarrow> brain \<Rightarrow> result" where
  "respond cfg w msg b =
     (case vault_token msg of
        None \<Rightarrow>
          \<lparr>store = b,
           trace =
             [Send (Format
                (sorry_dave cfg @
                 ''\<newline>I need your vault token in order to do this.\<newline>You should ask your beloved sysadmin ;)'')
                [AStr (user_name msg)])],
           completion = Returned\<rparr>
      | Some token \<Rightarrow>
          (case access_level (toLowerCase (match1 msg)) of
             None \<Rightarrow>
               \<lparr>store = b,
                trace =
                  [Send (Format
                     (sorry_dave cfg @
                      ''\<newline>Unknown access level *%s*.\<newline>Must be read, ro, write, rw or admin'')
                     [AStr (user_name msg), AUndefined])],
                completion = Returned\<rparr>
           | Some level \<Rightarrow>
               (case vault_path_for (toLowerCase (match2 msg)) of
                  None \<Rightarrow>
                    \<lparr>store = b,
                     trace =
                       [Send (Format
                          (sorry_dave cfg @
                           ''\<newline>Unknown environment *%s*.\<newline>Must be production, prod or test'')
                          [AStr (user_name msg), AStr (match2 msg)])],
                     completion = Returned\<rparr>
                | Some vault_path \<Rightarrow>
                    let r = vault_callback cfg w msg level vault_path b
                    in r\<lparr>trace := HttpGet (vault_url cfg vault_path level) token # trace r\<rparr>)))"

section \<open>What the caller reads\<close>

text \<open>A message as the chat shows it: the text rendered. A trace is shown when each of its
  messages renders.\<close>

fun shown :: "event \<Rightarrow> event option" where
  "shown (Send t) = map_option (\<lambda>s. Send (Plain s)) (render t)"
| "shown (Reply t) = map_option (\<lambda>s. Reply (Plain s)) (render t)"
| "shown e = Some e"

definition shown_trace :: "event list \<Rightarrow> event list option" where
  "shown_trace t = all_some (map shown t)"

text \<open>Arguments whose strings are not empty and do not begin with a percent sign.\<close>

definition plain_args :: "fmt_arg list \<Rightarrow> bool" where
  "plain_args args = list_all (\<lambda>a. arg_string a \<noteq> [] \<and> hd (arg_string a) \<noteq> CHR ''%'') args"

section \<open>The taxonomy of backend failures\<close>

text \<open>
  The classes of failure of a call to the secret backend in the words of the
  specification (section 4.3, steps 2 to 5), kept apart from the code, to compare the
  reports of the callback against: a transport failure, the statuses 401, 400 and 404,
  the status 503, and any other status above 299.
\<close>

datatype failure = BackendUnreachable | Unauthorized | BackendUnavailable | UnknownBackendError

definition spec_failure :: "http_reply \<Rightarrow> failure option" where
  "spec_failure r =
     (if err r \<noteq> None then Some BackendUnreachable
      else
        (case res r of
           None \<Rightarrow> None
         | Some code \<Rightarrow>
             if code = 401 \<or> code = 400 \<or> code = 404 then Some Unauthorized
             else if code = 503 then Some BackendUnavailable
             else if code > 299 then Some UnknownBackendError
             else None))"

section \<open>Successive visits and sample inputs\<close>

text \<open>The router serves confirmation requests one after the other, each on the brain that
  the one before left.\<close>

fun serve :: "brain \<Rightarrow> (world \<times> request) list \<Rightarrow> result list" where
  "serve b [] = []"
| "serve b ((w, req) # rest) = access w req b # serve (store (access w req b)) rest"

text \<open>A lease of 600 seconds on the test database, requested at time 1000000, and a visit
  two minutes later.\<close>

definition example_lease :: jsval where
  "example_lease =
     JObj [(''vault_path'', JStr ''db_test''), (''requested'', JNum 1000000),
           (''lease_duration'', JNum 600)]"

definition example_request :: request where
  "example_request =
     \<lparr>headers = [''user-agent'' \<mapsto> ''Mozilla/5.0''],
      params_nonce = ''abc'', remoteAddress = ''10.0.0.5''\<rparr>"

definition example_world :: world where
  "example_world =
     \<lparr>now = 1000000 + 120000, acl_err = None, str_num = (\<lambda>s. NaN),
      vault_reply = \<lparr>err = None, res = Some 200, body = Some ''{}''\<rparr>,
      JSON_parse = (\<lambda>s. if s = ''{}'' then Some (JObj []) else None),
      fresh_nonce = ''abc''\<rparr>"

definition example_brain :: brain where
  "example_brain = [brain_key ''abc'' \<mapsto> example_lease]"

definition crawler_request :: request where
  "crawler_request = example_request\<lparr>headers := [''user-agent'' \<mapsto> ''Slackbot-LinkExpanding 1.0'']\<rparr>"

definition example_config :: config where
  "example_config =
     \<lparr>sorry_dave = ''Sorry %s.'', vault_base_url = ''https://vault.example'',
      base_url = ''https://bot.example/''\<rparr>"

definition example_message :: message where
  "example_message =
     \<lparr>user_name = ''dave'', vault_token = Some ''s.token'', match1 = ''RO'', match2 = ''Test'',
      room_differs = False\<rparr>"

section \<open>The arithmetic of doubles\<close>

text \<open>
  An integer of magnitude below \<open>2 ^ 53\<close> is held by a double without rounding, so on such
  integers the arithmetic of the script is the arithmetic of the integers.
\<close>

lemma bit_length_le: "n < 2 ^ k \<Longrightarrow> bit_length n \<le> k"
proof (induction k arbitrary: n)
  case 0
  then show ?case by simp
next
  case (Suc k)
  show ?case
  proof (cases "n = 0")
    case True
    then show ?thesis by simp
  next
    case False
    have "n div 2 < 2 ^ k" using Suc.prems by simp
    then have "bit_length (n div 2) \<le> k" by (rule Suc.IH)
    then show ?thesis using False by (subst bit_length.simps) simp
  qed
qed

lemma round_nat_safe: "n < 2 ^ 53 \<Longrightarrow> round_nat n = n"
  using bit_length_le [of n 53] by (simp add: round_nat_def Let_def)

lemma double_of_int_safe: "safe_integer n \<Longrightarrow> double_of_int n = Num n"
proof -
  assume s: "safe_integer n"
  then have lt: "nat \<bar>n\<bar> < 2 ^ 53" by (simp add: safe_integer_def nat_less_iff)
  then have r: "round_nat (nat \<bar>n\<bar>) = nat \<bar>n\<bar>" by (rule round_nat_safe)
  have "(2::nat) ^ 53 < 2 ^ 1024" by simp
  then have "\<not> (2::nat) ^ 1024 \<le> nat \<bar>n\<bar>" using lt by linarith
  then show ?thesis unfolding double_of_int_def Let_def r by auto
qed

lemma safe_integer_factor: "safe_integer (L * 1000) \<Longrightarrow> safe_integer L"
proof -
  assume "safe_integer (L * 1000)"
  then have "\<bar>L\<bar> * 1000 < 2 ^ 53" by (simp add: safe_integer_def abs_mult)
  moreover have "\<bar>L\<bar> \<le> \<bar>L\<bar> * 1000" by simp
  ultimately show ?thesis unfolding safe_integer_def by linarith
qed

lemma bit_length_480000: "bit_length (nat \<bar>480000\<bar>) = 19"
  by simp

lemma bit_length_60000: "bit_length (nat 60000) = 16"
  by simp

lemma floor_quotient_480000: "floor_quotient 480000 60000 = 8"
  using bit_length_480000 bit_length_60000
  unfolding floor_quotient_def Let_def shl_def by simp

lemma floor_quotient_0: "floor_quotient 0 b = 0"
  by (simp add: floor_quotient_def)

text \<open>
  Beyond the safe integers a double rounds: \<open>2 ^ 53 * 1000 - 120000\<close> becomes the nearest
  multiple of 1024, and \<open>9007199254741001\<close> the even neighbour below it.
\<close>

lemma bit_length_2_53: "bit_length 9007199254740992 = 54"
  by simp

lemma bit_length_product: "bit_length 9007199254740992000 = 63"
  by simp

lemma bit_length_difference: "bit_length 9007199254740872000 = 63"
  by simp

lemma double_of_int_2_53: "double_of_int 9007199254740992 = Num 9007199254740992"
  using bit_length_2_53 unfolding double_of_int_def round_nat_def Let_def by simp

lemma double_of_int_product: "double_of_int 9007199254740992000 = Num 9007199254740992000"
  using bit_length_product unfolding double_of_int_def round_nat_def Let_def by simp

lemma double_of_int_difference: "double_of_int 9007199254740872000 = Num 9007199254740872192"
  using bit_length_difference unfolding double_of_int_def round_nat_def Let_def by simp

lemma bit_length_late_product: "bit_length 9007199254741000 = 54"
  by simp

lemma bit_length_late_elapsed: "bit_length 9007199254741001 = 54"
  by simp

lemma double_of_int_late_product: "double_of_int 9007199254741000 = Num 9007199254741000"
  using bit_length_late_product unfolding double_of_int_def round_nat_def Let_def by simp

lemma double_of_int_late_elapsed: "double_of_int 9007199254741001 = Num 9007199254741000"
  using bit_length_late_elapsed unfolding double_of_int_def round_nat_def Let_def by simp

text \<open>A number of magnitude \<open>10 ^ 21\<close> or more is printed with an exponent.\<close>

lemma bit_length_10_23: "bit_length 100000000000000000000000 = 77"
  by simp

lemma double_of_int_10_23: "double_of_int 100000000000000000000000 = Num 99999999999999991611392"
  using bit_length_10_23 unfolding double_of_int_def round_nat_def Let_def by simp

lemma length_show_nat_10_23: "length (show_nat 99999999999999991611392) = 23"
  by (simp add: digit_def)

lemma shortest_10_23: "shortest 99999999999999991611392 23 1 = 100000000000000000000000"
  by (subst shortest.simps) (simp add: double_of_int_10_23 Let_def)

lemma show_nat_10_23: "show_nat 100000000000000000000000 = ''100000000000000000000000''"
  by (simp add: digit_def)

lemma exp_string_10_23: "exp_string 99999999999999991611392 = ''1e+23''"
  unfolding exp_string_def length_show_nat_10_23 shortest_10_23 show_nat_10_23 Let_def
  by (simp add: digit_def)

lemma to_string_10_23: "to_string (JNum 100000000000000000000000) = Some ''1e+23''"
  by (simp add: double_of_int_10_23 exp_string_10_23)

section \<open>The paths of the confirmation route\<close>

lemmas example_defs =
  example_lease_def example_request_def example_world_def example_brain_def crawler_request_def

lemmas access_eval =
  access_def brain_key_def brain_get_def brain_remove_def missing_def compute_ttl_def
  field_def sec_group_def match_Slackbot_def toLowerCase_def
  lower_char_def client_ip_def remove_spaces_def first_hop_def SecGroupForVaultPath_def
  double_of_int_safe safe_integer_def floor_quotient_480000 floor_quotient_0
  show_int_def digit_def Let_def

lemma split_on_nonempty: "split_on sep s \<noteq> []"
  by (induction s) (auto split: list.splits)

lemma hd_split_on: "hd (split_on sep s) = takeWhile (\<lambda>c. c \<noteq> sep) s"
  by (induction s) (auto split: list.splits simp: split_on_nonempty)

lemma access_no_user_agent:
  "headers req ''user-agent'' = None \<Longrightarrow>
   access w req b = \<lparr>store = b, trace = [], completion = TypeError\<rparr>"
  by (simp add: access_def)

lemma access_crawler:
  "headers req ''user-agent'' = Some ua \<Longrightarrow> match_Slackbot ua \<Longrightarrow>
   access w req b = \<lparr>store = b, trace = [SendStatus 200], completion = Returned\<rparr>"
  by (simp add: access_def)

lemma access_missing:
  "headers req ''user-agent'' = Some ua \<Longrightarrow> \<not> match_Slackbot ua \<Longrightarrow>
   missing (brain_get b (brain_key (params_nonce req))) \<Longrightarrow>
   access w req b =
     \<lparr>store = b,
      trace = [BrainGet (brain_key (params_nonce req)), Render ''not_found'' []],
      completion = Returned\<rparr>"
  by (simp add: access_def Let_def)

lemma access_expired:
  "headers req ''user-agent'' = Some ua \<Longrightarrow> \<not> match_Slackbot ua \<Longrightarrow>
   \<not> missing (brain_get b (brain_key (params_nonce req))) \<Longrightarrow>
   compute_ttl w (brain_get b (brain_key (params_nonce req))) = Some ttl \<Longrightarrow>
   num_negative ttl \<Longrightarrow>
   access w req b =
     \<lparr>store = brain_remove b (brain_key (params_nonce req)),
      trace = [BrainGet (brain_key (params_nonce req)), Render ''not_found'' [],
               BrainRemove (brain_key (params_nonce req))],
      completion = Returned\<rparr>"
  by (simp add: access_def Let_def)

lemma access_authorize:
  "headers req ''user-agent'' = Some ua \<Longrightarrow> \<not> match_Slackbot ua \<Longrightarrow>
   \<not> missing (brain_get b (brain_key (params_nonce req))) \<Longrightarrow>
   compute_ttl w (brain_get b (brain_key (params_nonce req))) = Some ttl \<Longrightarrow>
   \<not> num_negative ttl \<Longrightarrow>
   sec_group (field (brain_get b (brain_key (params_nonce req))) ''vault_path'') = Some g \<Longrightarrow>
   access w req b =
     \<lparr>store = brain_remove b (brain_key (params_nonce req)),
      trace =
        [BrainGet (brain_key (params_nonce req)),
         AllowAccess g (client_ip req) ttl,
         BrainRemove (brain_key (params_nonce req)),
         (case acl_err w of
            Some e \<Rightarrow> Render ''error'' [(''error'', e)]
          | None \<Rightarrow> Render ''ip_success'' [(''ip'', client_ip req), (''ttl'', minutes ttl)])],
      completion = Returned\<rparr>"
  by (simp add: access_def Let_def)

text \<open>A visit that finds an object under the key and returns has removed the key.\<close>

lemma access_returned_removes:
  assumes "headers req ''user-agent'' = Some ua" and "\<not> match_Slackbot ua"
    and "\<not> missing (brain_get b (brain_key (params_nonce req)))"
    and "completion (access w req b) = Returned"
  shows "store (access w req b) = brain_remove b (brain_key (params_nonce req))"
  using assms by (auto simp: access_def Let_def split: option.splits if_splits)

lemma brain_get_removed: "brain_get (brain_remove b k) k = JNull"
  by (simp add: brain_get_def brain_remove_def)

lemma missing_JNull: "missing JNull"
  by (simp add: missing_def)

lemma brain_get_object:
  "b k = Some v \<Longrightarrow> typeof_object v \<Longrightarrow> brain_get b k = v"
  by (cases v) (simp_all add: brain_get_def)

lemma brain_get_not_object:
  "b k = Some v \<Longrightarrow> \<not> typeof_object v \<Longrightarrow> missing (brain_get b k)"
  by (cases v) (auto simp: brain_get_def missing_def split: prim.splits)

text \<open>After a visit by a client that is not the crawler has returned, the key reads as
  missing.\<close>

lemma access_spends:
  assumes "headers req ''user-agent'' = Some ua" and "\<not> match_Slackbot ua"
    and "completion (access w req b) = Returned"
  shows "missing (brain_get (store (access w req b)) (brain_key (params_nonce req)))"
proof (cases "missing (brain_get b (brain_key (params_nonce req)))")
  case True
  with assms show ?thesis by (simp add: access_missing)
next
  case False
  with assms show ?thesis
    by (simp add: access_returned_removes brain_get_removed missing_JNull)
qed

text \<open>A visit on a key that reads as missing changes nothing and authorizes nothing.\<close>

lemma access_on_spent:
  assumes "missing (brain_get b (brain_key (params_nonce req)))"
  shows "store (access w req b) = b"
    and "AllowAccess g ip t \<notin> set (trace (access w req b))"
    and "headers req ''user-agent'' = Some ua \<Longrightarrow> \<not> match_Slackbot ua \<Longrightarrow>
         access w req b =
           \<lparr>store = b,
            trace = [BrainGet (brain_key (params_nonce req)), Render ''not_found'' []],
            completion = Returned\<rparr>"
  using assms by (auto simp: access_def Let_def split: option.splits)

lemma serve_on_spent:
  assumes "missing (brain_get b k)"
    and "\<forall>(w, r) \<in> set later. brain_key (params_nonce r) = k"
  shows "list_all2
           (\<lambda>(w, r) out.
              store out = b \<and>
              (\<forall>g ip t. AllowAccess g ip t \<notin> set (trace out)) \<and>
              (\<forall>u. headers r ''user-agent'' = Some u \<and> \<not> match_Slackbot u \<longrightarrow>
                   trace out = [BrainGet k, Render ''not_found'' []] \<and> completion out = Returned))
           later (serve b later)"
  using assms
proof (induction later)
  case Nil
  then show ?case by simp
next
  case (Cons x later)
  obtain w r where x: "x = (w, r)" by (cases x)
  from Cons.prems x have k: "brain_key (params_nonce r) = k" by simp
  with Cons.prems(1) have spent: "missing (brain_get b (brain_key (params_nonce r)))" by simp
  have st: "store (access w r b) = b" using spent by (rule access_on_spent(1))
  have no: "\<And>g ip t. AllowAccess g ip t \<notin> set (trace (access w r b))"
    using spent by (rule access_on_spent(2))
  have nf: "\<And>u. headers r ''user-agent'' = Some u \<Longrightarrow> \<not> match_Slackbot u \<Longrightarrow>
      trace (access w r b) = [BrainGet k, Render ''not_found'' []] \<and> completion (access w r b) = Returned"
    using access_on_spent(3)[OF spent] k by simp
  have rest: "list_all2
           (\<lambda>(w, r) out.
              store out = b \<and>
              (\<forall>g ip t. AllowAccess g ip t \<notin> set (trace out)) \<and>
              (\<forall>u. headers r ''user-agent'' = Some u \<and> \<not> match_Slackbot u \<longrightarrow>
                   trace out = [BrainGet k, Render ''not_found'' []] \<and> completion out = Returned))
           later (serve b later)"
    using Cons.IH Cons.prems by simp
  show ?case using st no nf rest x by auto
qed

lemma compute_ttl_lease:
  assumes "map_of kvs ''lease_duration'' = Some (JNum L)"
    and "map_of kvs ''requested'' = Some (JNum t0)"
    and "safe_integer (L * 1000)" and "safe_integer t0" and "safe_integer (now w)"
    and "safe_integer (now w - t0)" and "safe_integer (L * 1000 - (now w - t0))"
  shows "compute_ttl w (JObj kvs) = Some (Num (L * 1000 - (now w - t0)))"
  using assms safe_integer_factor [of L]
  by (simp add: compute_ttl_def field_def double_of_int_safe)

text \<open>
  Without the bounds line 71 rounds. A lease of \<open>2 ^ 53\<close> seconds visited after two minutes
  has a ttl of 9007199254740872192 and not of 9007199254740872000; and a visit one
  millisecond after the end of a lease of 9007199254741 seconds computes a ttl of 0, so
  that the ACL backend is called.
\<close>

lemma compute_ttl_rounds:
  "compute_ttl example_world
     (JObj [(''vault_path'', JStr ''db_test''), (''requested'', JNum 1000000),
            (''lease_duration'', JNum 9007199254740992)]) =
   Some (Num 9007199254740872192)"
  by (simp add: compute_ttl_def field_def example_world_def double_of_int_safe safe_integer_def
        double_of_int_2_53 double_of_int_product double_of_int_difference)

lemma rounded_ttl_not_expired:
  "9007199254741 * 1000 < 1700000000001 - (- 9005499254741000 :: int) \<and>
   trace (access (example_world\<lparr>now := 1700000000001\<rparr>) example_request
            [brain_key ''abc'' \<mapsto>
               JObj [(''vault_path'', JStr ''db_test''), (''requested'', JNum (- 9005499254741000)),
                     (''lease_duration'', JNum 9007199254741)]]) =
     [BrainGet ''heimdall_access_abc'',
      AllowAccess (GroupName ''db-uwhisp-test'') ''10.0.0.5/32'' (Num 0),
      BrainRemove ''heimdall_access_abc'',
      Render ''ip_success'' [(''ip'', ''10.0.0.5/32''), (''ttl'', ''0 minutes'')]]"
  by (simp add: example_defs access_eval double_of_int_late_product double_of_int_late_elapsed)

section \<open>The paths of the callback\<close>

text \<open>The key of the brain and the URL of the request are what \<^verbatim>\<open>util.format\<close> renders.\<close>

lemma brain_key_format:
  "util_format ''heimdall_access_%s'' [AStr nonce] = Some (brain_key nonce)"
  by (simp add: brain_key_def)

lemma vault_url_format:
  "util_format ''%s/v1/%s/creds/%s'' [AStr (vault_base_url cfg), AStr vault_path, AStr level] =
     Some (vault_url cfg vault_path level)"
  by (simp add: vault_url_def)

lemmas respond_eval =
  respond_def vault_callback_def access_level_def vault_path_for_def vault_url_def
  toLowerCase_def lower_char_def unknownError_def brain_set_def brain_key_def line_def
  show_int_def digit_def Let_def

lemma unknownError_hd:
  "hd (unknownError r) =
     Reply (Plain ''An error occurred talking to vault, please try again in a few moments'')"
  by (simp add: unknownError_def)

lemma unknownError_replies: "x \<in> set (unknownError r) \<Longrightarrow> \<exists>s. x = Reply (Plain s)"
  by (auto simp: unknownError_def split: option.splits if_splits)

lemma unknownError_err:
  "err r \<noteq> None \<Longrightarrow> \<exists>e. Reply (Plain (''Error: '' @ e)) \<in> set (unknownError r)"
  by (auto simp: unknownError_def)

lemma unknownError_no_err:
  "err r = None \<Longrightarrow> \<forall>e. Reply (Plain (''Error: '' @ e)) \<notin> set (unknownError r)"
  by (simp add: unknownError_def split: option.splits)

lemma callback_unreachable:
  "spec_failure (vault_reply w) = Some BackendUnreachable \<Longrightarrow>
   err (vault_reply w) \<noteq> None \<and>
   vault_callback cfg w msg level vp b =
     \<lparr>store = b, trace = unknownError (vault_reply w), completion = Returned\<rparr>"
  by (auto simp: spec_failure_def vault_callback_def Let_def split: if_splits option.splits)

lemma callback_unknown:
  "spec_failure (vault_reply w) = Some UnknownBackendError \<Longrightarrow>
   err (vault_reply w) = None \<and>
   vault_callback cfg w msg level vp b =
     \<lparr>store = b, trace = unknownError (vault_reply w), completion = Returned\<rparr>"
  by (auto simp: spec_failure_def vault_callback_def Let_def split: if_splits option.splits)

lemma callback_unauthorized:
  "spec_failure (vault_reply w) = Some Unauthorized \<Longrightarrow>
   vault_callback cfg w msg level vp b =
     \<lparr>store = b,
      trace =
        [Send (Format
           (sorry_dave cfg @
            ''\<newline>You're not authorized to request *%s* access to *%s* database'')
           [AStr (user_name msg), AStr level, AStr vp])],
      completion = Returned\<rparr>"
  by (auto simp: spec_failure_def vault_callback_def Let_def split: if_splits option.splits)

lemma callback_unavailable:
  "spec_failure (vault_reply w) = Some BackendUnavailable \<Longrightarrow>
   vault_callback cfg w msg level vp b =
     \<lparr>store = b,
      trace =
        [Send (Format
           (sorry_dave cfg @
            ''\<newline>Vault is sealed and cannot retreave any data from it'')
           [AStr (user_name msg)])],
      completion = Returned\<rparr>"
  by (auto simp: spec_failure_def vault_callback_def Let_def split: if_splits option.splits)


lemma callback_success:
  assumes "err (vault_reply w) = None" and "res (vault_reply w) = Some code" and "code \<le> 299"
    and "body (vault_reply w) = Some s" and "JSON_parse w s = Some (JObj kvs)"
    and "\<not> parse_throws (JObj kvs)"
  shows "vault_callback cfg w msg level vp b =
     \<lparr>store =
        b(brain_key (fresh_nonce w) \<mapsto>
          JObj [(''vault_path'', JStr vp), (''requested'', JNum (now w)),
                (''lease_duration'',
                 (case map_of kvs ''lease_duration'' of None \<Rightarrow> JUndefined | Some v \<Rightarrow> v))]),
      trace =
        [RoomSend (user_name msg) (join ''\<newline>'' (''Here ya go:'' # parse (JObj kvs))),
         BrainSet (brain_key (fresh_nonce w))
           (JObj [(''vault_path'', JStr vp), (''requested'', JNum (now w)),
                  (''lease_duration'',
                   (case map_of kvs ''lease_duration'' of None \<Rightarrow> JUndefined | Some v \<Rightarrow> v))]),
         RoomSend (user_name msg)
           (''Direct your browser here to enable access to DB from your current IP address\<newline>''
            @ base_url cfg @ ''heimdall/access/'' @ fresh_nonce w)] @
        (if room_differs msg
         then [Reply (Plain ''I've sent the access credentials in a private chat'')]
         else []),
      completion = Returned\<rparr>"
proof -
  have "\<not> (code = 401 \<or> code = 400 \<or> code = 404)" "code \<noteq> 503" "\<not> code > 299"
    using assms(3) by simp_all
  then show ?thesis
    using assms(1,2,4,5,6)
    by (cases "map_of kvs ''lease_duration''")
       (simp_all add: vault_callback_def Let_def brain_set_def del: parse.simps parse_throws.simps)
qed

lemma callback_unparsable:
  assumes "err (vault_reply w) = None" and "res (vault_reply w) = Some code" and "code \<le> 299"
    and "body (vault_reply w) = Some s" and "JSON_parse w s = None"
  shows "vault_callback cfg w msg level vp b =
     \<lparr>store = b,
      trace = [Reply (Plain ''An error occurred parsing the vault response''), Reply (Plain s)],
      completion = Returned\<rparr>"
proof -
  have "\<not> (code = 401 \<or> code = 400 \<or> code = 404)" "code \<noteq> 503" "\<not> code > 299"
    using assms(3) by simp_all
  then show ?thesis
    using assms(1,2,4,5) by (simp add: vault_callback_def Let_def)
qed

lemma respond_valid:
  assumes "vault_token msg = Some token"
    and "access_level (toLowerCase (match1 msg)) = Some level"
    and "vault_path_for (toLowerCase (match2 msg)) = Some vp"
  shows "respond cfg w msg b =
     (vault_callback cfg w msg level vp b)
       \<lparr>trace := HttpGet (vault_url cfg vp level) token # trace (vault_callback cfg w msg level vp b)\<rparr>"
  using assms by (simp add: respond_def Let_def)

text \<open>The texts of the two messages that are sent differ for one request, whatever the
  configured greeting: the greeting is rendered alike in both up to the point where the
  arguments of the shorter call are used up.\<close>

lemma suffixes_differ:
  assumes "util_format ''\<newline>You're not authorized to request *%s* access to *%s* database'' args1 = Some r1"
    and "util_format ''\<newline>Vault is sealed and cannot retreave any data from it'' args2 = Some r2"
  shows "r1 \<noteq> r2"
proof -
  from assms(1) obtain t1 where "r1 = CHR ''\<newline>'' # CHR ''Y'' # t1"
    by (auto simp del: util_format.simps simp add: util_format.simps(3)[of "CHR ''\<newline>''"] util_format.simps(3)[of "CHR ''Y''"])
  moreover from assms(2) obtain t2 where "r2 = CHR ''\<newline>'' # CHR ''V'' # t2"
    by (auto simp del: util_format.simps simp add: util_format.simps(3)[of "CHR ''\<newline>''"] util_format.simps(3)[of "CHR ''V''"])
  ultimately show ?thesis by simp
qed

lemma rendered_differ_exhausted:
  assumes A: "A = a # A'" "a \<noteq> CHR ''%''" "a \<noteq> CHR ''s''" "a \<noteq> CHR ''d''" "a \<noteq> CHR ''j''"
    and B: "B = a # B'"
    and differ: "\<And>args1 args2 r1 r2.
        util_format A args1 = Some r1 \<Longrightarrow> util_format B args2 = Some r2 \<Longrightarrow> r1 \<noteq> r2"
  shows "plain_args args1 \<Longrightarrow> util_format (sd @ A) args1 = Some r1 \<Longrightarrow>
         util_format (sd @ B) [] = Some r2 \<Longrightarrow> r1 \<noteq> r2"
proof (induction sd arbitrary: args1 r1 r2 rule: length_induct)
  case (1 sd)
  show ?case
  proof (cases sd)
    case Nil
    with "1.prems" differ show ?thesis by simp
  next
    case (Cons c sd')
    show ?thesis
    proof (cases sd')
      case Nil
      from "1.prems"(2) obtain t1 where t1: "util_format A args1 = Some t1" "r1 = c # t1"
        using A(2-5) unfolding Cons Nil A(1) by auto
      from "1.prems"(3) obtain t2 where t2: "util_format B [] = Some t2" "r2 = c # t2"
        using A(2-5) unfolding Cons Nil B by auto
      from differ [OF t1(1) t2(1)] t1(2) t2(2) show ?thesis by simp
    next
      case (Cons d f)
      note sd = \<open>sd = c # sd'\<close> Cons
      have shorter: "length f < length sd" "length (d # f) < length sd"
        by (simp_all add: sd)
      note IHf = "1.IH" [rule_format, OF shorter(1)]
      note IHdf = "1.IH" [rule_format, OF shorter(2)]
      consider (pct) "c = CHR ''%''" "d = CHR ''%''"
        | (dir) "c = CHR ''%''" "d = CHR ''s'' \<or> d = CHR ''d'' \<or> d = CHR ''j''"
        | (lit) "\<not> (c = CHR ''%'' \<and> (d = CHR ''%'' \<or> d = CHR ''s'' \<or> d = CHR ''d'' \<or> d = CHR ''j''))"
        by blast
      then show ?thesis
      proof cases
        case pct
        from "1.prems"(2) obtain t1 where t1: "util_format (f @ A) args1 = Some t1" "r1 = CHR ''%'' # t1"
          by (auto simp: sd pct)
        from "1.prems"(3) obtain t2 where t2: "util_format (f @ B) [] = Some t2" "r2 = CHR ''%'' # t2"
          by (auto simp: sd pct)
        from IHf [OF "1.prems"(1) t1(1) t2(1)] t1(2) t2(2) show ?thesis by simp
      next
        case dir
        then have dne: "d \<noteq> CHR ''%''" by auto
        from "1.prems"(3) obtain t2 where t2: "util_format (f @ B) [] = Some t2" "r2 = c # d # t2"
          using dir dne by (auto simp: sd)
        show ?thesis
        proof (cases args1)
          case Nil
          from "1.prems"(2) obtain t1 where t1: "util_format (f @ A) [] = Some t1" "r1 = c # d # t1"
            using dir dne by (auto simp: sd Nil)
          from IHf [OF _ t1(1) t2(1)] t1(2) t2(2) show ?thesis by (simp add: plain_args_def)
        next
          case (Cons x rest)
          from "1.prems"(1) Cons obtain y ys where x: "arg_string x = y # ys" "y \<noteq> CHR ''%''"
            by (cases "arg_string x") (auto simp: plain_args_def)
          from "1.prems"(2) obtain t1 where "r1 = arg_string x @ t1"
            using dir dne by (auto simp: sd Cons split: if_splits)
          with x t2(2) dir(1) show ?thesis by simp
        qed
      next
        case lit
        from "1.prems"(2) obtain t1 where t1: "util_format ((d # f) @ A) args1 = Some t1" "r1 = c # t1"
          using lit by (auto simp: sd)
        from "1.prems"(3) obtain t2 where t2: "util_format ((d # f) @ B) [] = Some t2" "r2 = c # t2"
          using lit by (auto simp: sd)
        from IHdf [OF "1.prems"(1) t1(1) t2(1)] t1(2) t2(2) show ?thesis by simp
      qed
    qed
  qed
qed

lemma rendered_differ_shared:
  assumes A: "A = a # A'" "a \<noteq> CHR ''%''" "a \<noteq> CHR ''s''" "a \<noteq> CHR ''d''" "a \<noteq> CHR ''j''"
    and B: "B = a # B'"
    and differ: "\<And>args1 args2 r1 r2.
        util_format A args1 = Some r1 \<Longrightarrow> util_format B args2 = Some r2 \<Longrightarrow> r1 \<noteq> r2"
  shows "plain_args rest \<Longrightarrow> util_format (sd @ A) (n # rest) = Some r1 \<Longrightarrow>
         util_format (sd @ B) [n] = Some r2 \<Longrightarrow> r1 \<noteq> r2"
proof (induction sd arbitrary: r1 r2 rule: length_induct)
  case (1 sd)
  show ?case
  proof (cases sd)
    case Nil
    with "1.prems" differ show ?thesis by simp
  next
    case (Cons c sd')
    show ?thesis
    proof (cases sd')
      case Nil
      from "1.prems"(2) obtain t1 where t1: "util_format A (n # rest) = Some t1" "r1 = c # t1"
        using A(2-5) unfolding Cons Nil A(1) by auto
      from "1.prems"(3) obtain t2 where t2: "util_format B [n] = Some t2" "r2 = c # t2"
        using A(2-5) unfolding Cons Nil B by auto
      from differ [OF t1(1) t2(1)] t1(2) t2(2) show ?thesis by simp
    next
      case (Cons d f)
      note sd = \<open>sd = c # sd'\<close> Cons
      have shorter: "length f < length sd" "length (d # f) < length sd"
        by (simp_all add: sd)
      note IHf = "1.IH" [rule_format, OF shorter(1)]
      note IHdf = "1.IH" [rule_format, OF shorter(2)]
      consider (pct) "c = CHR ''%''" "d = CHR ''%''"
        | (dir) "c = CHR ''%''" "d = CHR ''s'' \<or> d = CHR ''d'' \<or> d = CHR ''j''"
        | (lit) "\<not> (c = CHR ''%'' \<and> (d = CHR ''%'' \<or> d = CHR ''s'' \<or> d = CHR ''d'' \<or> d = CHR ''j''))"
        by blast
      then show ?thesis
      proof cases
        case pct
        from "1.prems"(2) obtain t1 where t1: "util_format (f @ A) (n # rest) = Some t1" "r1 = CHR ''%'' # t1"
          by (auto simp: sd pct)
        from "1.prems"(3) obtain t2 where t2: "util_format (f @ B) [n] = Some t2" "r2 = CHR ''%'' # t2"
          by (auto simp: sd pct)
        from IHf [OF "1.prems"(1) t1(1) t2(1)] t1(2) t2(2) show ?thesis by simp
      next
        case dir
        then have dne: "d \<noteq> CHR ''%''" by auto
        from "1.prems"(2) obtain t1 where t1: "util_format (f @ A) rest = Some t1" "r1 = arg_string n @ t1"
          using dir dne by (auto simp: sd split: if_splits)
        from "1.prems"(3) obtain t2 where t2: "util_format (f @ B) [] = Some t2" "r2 = arg_string n @ t2"
          using dir dne by (auto simp: sd split: if_splits)
        from rendered_differ_exhausted [OF A B differ "1.prems"(1) t1(1) t2(1)] t1(2) t2(2)
        show ?thesis by simp
      next
        case lit
        from "1.prems"(2) obtain t1 where t1: "util_format ((d # f) @ A) (n # rest) = Some t1" "r1 = c # t1"
          using lit by (auto simp: sd)
        from "1.prems"(3) obtain t2 where t2: "util_format ((d # f) @ B) [n] = Some t2" "r2 = c # t2"
          using lit by (auto simp: sd)
        from IHdf [OF "1.prems"(1) t1(1) t2(1)] t1(2) t2(2) show ?thesis by simp
      qed
    qed
  qed
qed

lemma unauthorized_unavailable_rendered_differ:
  assumes "level \<in> {''readonly'', ''readwrite'', ''admin''}"
    and "vp \<in> {''db_production'', ''db_test''}"
    and "render (Format
           (sd @ ''\<newline>You're not authorized to request *%s* access to *%s* database'')
           [AStr n, AStr level, AStr vp]) = Some r1"
    and "render (Format
           (sd @ ''\<newline>Vault is sealed and cannot retreave any data from it'') [AStr n]) = Some r2"
  shows "r1 \<noteq> r2"
proof -
  have plain: "plain_args [AStr level, AStr vp]"
    using assms(1,2) by (auto simp: plain_args_def)
  have A: "''\<newline>You're not authorized to request *%s* access to *%s* database'' =
      CHR ''\<newline>'' # ''You're not authorized to request *%s* access to *%s* database''"
    by simp
  have B: "''\<newline>Vault is sealed and cannot retreave any data from it'' =
      CHR ''\<newline>'' # ''Vault is sealed and cannot retreave any data from it''"
    by simp
  have c: "CHR ''\<newline>'' \<noteq> CHR ''%''" "CHR ''\<newline>'' \<noteq> CHR ''s''"
    "CHR ''\<newline>'' \<noteq> CHR ''d''" "CHR ''\<newline>'' \<noteq> CHR ''j''"
    by simp_all
  from assms(3) have r1: "util_format
      (sd @ ''\<newline>You're not authorized to request *%s* access to *%s* database'')
      (AStr n # [AStr level, AStr vp]) = Some r1"
    by simp
  from assms(4) have r2: "util_format
      (sd @ ''\<newline>Vault is sealed and cannot retreave any data from it'') [AStr n] = Some r2"
    by simp
  show ?thesis
    by (rule rendered_differ_shared [OF A c B suffixes_differ plain r1 r2])
qed

lemma shown_trace_unknownError: "shown_trace (unknownError r) = Some (unknownError r)"
  by (simp add: shown_trace_def unknownError_def split: option.splits)

lemma shown_trace_Send:
  "shown_trace [Send t] = Some s \<Longrightarrow> \<exists>r. render t = Some r \<and> s = [Send (Plain r)]"
  by (cases "render t") (auto simp: shown_trace_def)

section \<open>The claims\<close>

text \<open>
  C1. After a visit by a client other than the crawler has returned with its outcome
  (granted, failed, expired or not found), every later visit with the same nonce leaves
  the brain as it is and calls \<^verbatim>\<open>heimdall.allowAccessToIp\<close> no more, whatever its
  headers, the clock and the answer of the backend; and every later visit by a client
  other than the crawler gets the \<^verbatim>\<open>not_found\<close> page.
\<close>

theorem nonce_never_reused:
  assumes "headers req ''user-agent'' = Some ua" and "\<not> match_Slackbot ua"
    and "completion (access w req b) = Returned"
    and "\<forall>(w', r) \<in> set later. params_nonce r = params_nonce req"
  shows "list_all2
           (\<lambda>(w', r) out.
              store out = store (access w req b) \<and>
              (\<forall>g ip t. AllowAccess g ip t \<notin> set (trace out)) \<and>
              (\<forall>u. headers r ''user-agent'' = Some u \<and> \<not> match_Slackbot u \<longrightarrow>
                   trace out = [BrainGet (brain_key (params_nonce req)), Render ''not_found'' []] \<and>
                   completion out = Returned))
           later (serve (store (access w req b)) later)"
proof (rule serve_on_spent)
  show "missing (brain_get (store (access w req b)) (brain_key (params_nonce req)))"
    using assms(1,2,3) by (rule access_spends)
  show "\<forall>(w', r) \<in> set later. brain_key (params_nonce r) = brain_key (params_nonce req)"
    using assms(4) by auto
qed

theorem nonce_never_reused_witness:
  "headers example_request ''user-agent'' = Some ''Mozilla/5.0'' \<and>
   \<not> match_Slackbot ''Mozilla/5.0'' \<and>
   completion (access example_world example_request example_brain) = Returned \<and>
   trace (access example_world example_request example_brain) =
     [BrainGet ''heimdall_access_abc'',
      AllowAccess (GroupName ''db-uwhisp-test'') ''10.0.0.5/32'' (Num 480000),
      BrainRemove ''heimdall_access_abc'',
      Render ''ip_success'' [(''ip'', ''10.0.0.5/32''), (''ttl'', ''8 minutes'')]] \<and>
   map trace
     (serve (store (access example_world example_request example_brain))
        [(example_world, example_request), (example_world, crawler_request),
         (example_world, example_request)]) =
     [[BrainGet ''heimdall_access_abc'', Render ''not_found'' []],
      [SendStatus 200],
      [BrainGet ''heimdall_access_abc'', Render ''not_found'' []]]"
proof -
  have ua: "headers example_request ''user-agent'' = Some ''Mozilla/5.0''"
    by (simp add: example_defs)
  have nb: "\<not> match_Slackbot ''Mozilla/5.0''"
    by (simp add: match_Slackbot_def toLowerCase_def lower_char_def)
  have same: "\<forall>(w', r) \<in> set [(example_world, example_request), (example_world, crawler_request),
         (example_world, example_request)]. params_nonce r = params_nonce example_request"
    by (simp add: example_defs)
  have first: "trace (access example_world example_request example_brain) =
     [BrainGet ''heimdall_access_abc'',
      AllowAccess (GroupName ''db-uwhisp-test'') ''10.0.0.5/32'' (Num 480000),
      BrainRemove ''heimdall_access_abc'',
      Render ''ip_success'' [(''ip'', ''10.0.0.5/32''), (''ttl'', ''8 minutes'')]]"
    by (simp add: example_defs access_eval)
  have ret: "completion (access example_world example_request example_brain) = Returned"
    by (simp add: example_defs access_eval)
  have crawler: "trace (access example_world crawler_request b) = [SendStatus 200]" for b
    by (simp add: example_defs access_def match_Slackbot_def toLowerCase_def lower_char_def)
  define b1 where "b1 = store (access example_world example_request example_brain)"
  have later: "list_all2
           (\<lambda>(w', r) out.
              store out = b1 \<and>
              (\<forall>g ip t. AllowAccess g ip t \<notin> set (trace out)) \<and>
              (\<forall>u. headers r ''user-agent'' = Some u \<and> \<not> match_Slackbot u \<longrightarrow>
                   trace out = [BrainGet (brain_key (params_nonce example_request)), Render ''not_found'' []] \<and>
                   completion out = Returned))
           [(example_world, example_request), (example_world, crawler_request),
            (example_world, example_request)]
           (serve b1
              [(example_world, example_request), (example_world, crawler_request),
               (example_world, example_request)])"
    unfolding b1_def by (rule nonce_never_reused [OF ua nb ret same])
  have key: "brain_key (params_nonce example_request) = ''heimdall_access_abc''"
    by (simp add: brain_key_def example_request_def)
  from later have s1: "store (access example_world example_request b1) = b1"
    by simp
  from later have s2: "store (access example_world crawler_request b1) = b1"
    by (simp add: s1)
  from later ua nb have t1: "trace (access example_world example_request b1) =
      [BrainGet ''heimdall_access_abc'', Render ''not_found'' []]"
    by (simp add: key)
  have "map trace
     (serve b1
        [(example_world, example_request), (example_world, crawler_request),
         (example_world, example_request)]) =
     [[BrainGet ''heimdall_access_abc'', Render ''not_found'' []],
      [SendStatus 200],
      [BrainGet ''heimdall_access_abc'', Render ''not_found'' []]]"
    by (simp add: s1 s2 t1 crawler)
  then show ?thesis
    using ua nb ret first unfolding b1_def by simp
qed

text \<open>
  C2, as stated, fails: when the brain holds a value that is not an object under the key
  (here a string), the visit renders \<^verbatim>\<open>not_found\<close> and returns at line 56 with the value
  still in the brain.
\<close>

theorem stored_string_stays_counterexample:
  "access example_world example_request [brain_key ''abc'' \<mapsto> JStr ''pending''] =
     \<lparr>store = [brain_key ''abc'' \<mapsto> JStr ''pending''],
      trace = [BrainGet ''heimdall_access_abc'', Render ''not_found'' []],
      completion = Returned\<rparr> \<and>
   store (access example_world example_request [brain_key ''abc'' \<mapsto> JStr ''pending''])
     (brain_key (params_nonce example_request)) = Some (JStr ''pending'')"
  by (simp add: example_defs access_eval)

text \<open>
  C2, amended. For every visit by a client other than the crawler on a nonce under which
  the brain holds an object (an object or an array, not \<^verbatim>\<open>null\<close>), every path on which
  the handler returns (success, ACL failure, expiry) returns with the key removed from the
  brain. When the value held is not an object, the visit renders \<^verbatim>\<open>not_found\<close> and leaves
  the brain as it is.
\<close>

theorem object_record_removed:
  assumes "headers req ''user-agent'' = Some ua" and "\<not> match_Slackbot ua"
    and "b (brain_key (params_nonce req)) = Some v"
  shows "(typeof_object v \<and> v \<noteq> JNull \<and> completion (access w req b) = Returned \<longrightarrow>
            store (access w req b) (brain_key (params_nonce req)) = None) \<and>
         (\<not> (typeof_object v \<and> v \<noteq> JNull) \<longrightarrow>
            access w req b =
              \<lparr>store = b,
               trace = [BrainGet (brain_key (params_nonce req)), Render ''not_found'' []],
               completion = Returned\<rparr>)"
proof (intro conjI impI)
  assume a: "typeof_object v \<and> v \<noteq> JNull \<and> completion (access w req b) = Returned"
  then have got: "brain_get b (brain_key (params_nonce req)) = v"
    using assms(3) by (simp add: brain_get_object)
  with a have found: "\<not> missing (brain_get b (brain_key (params_nonce req)))"
    by (simp add: missing_def)
  from a have "completion (access w req b) = Returned" by simp
  with assms(1,2) found
  have "store (access w req b) = brain_remove b (brain_key (params_nonce req))"
    by (rule access_returned_removes)
  then show "store (access w req b) (brain_key (params_nonce req)) = None"
    by (simp add: brain_remove_def)
next
  assume n: "\<not> (typeof_object v \<and> v \<noteq> JNull)"
  have "missing (brain_get b (brain_key (params_nonce req)))"
  proof (cases "typeof_object v")
    case True
    with n have "v = JNull" by simp
    with assms(3) show ?thesis by (simp add: brain_get_def missing_def)
  next
    case False
    with assms(3) show ?thesis by (rule brain_get_not_object)
  qed
  with assms(1,2) show "access w req b =
              \<lparr>store = b,
               trace = [BrainGet (brain_key (params_nonce req)), Render ''not_found'' []],
               completion = Returned\<rparr>"
    by (rule access_missing)
qed

theorem object_record_removed_witness:
  "headers example_request ''user-agent'' = Some ''Mozilla/5.0'' \<and>
   \<not> match_Slackbot ''Mozilla/5.0'' \<and>
   example_brain (brain_key (params_nonce example_request)) = Some example_lease \<and>
   typeof_object example_lease \<and> example_lease \<noteq> JNull \<and>
   completion (access example_world example_request example_brain) = Returned \<and>
   store (access example_world example_request example_brain)
     (brain_key (params_nonce example_request)) = None \<and>
   completion (access (example_world\<lparr>now := 1600001\<rparr>) example_request example_brain) = Returned \<and>
   store (access (example_world\<lparr>now := 1600001\<rparr>) example_request example_brain)
     (brain_key (params_nonce example_request)) = None \<and>
   completion (access (example_world\<lparr>acl_err := Some ''AuthorizationAlreadyExists''\<rparr>)
                 example_request example_brain) = Returned \<and>
   store (access (example_world\<lparr>acl_err := Some ''AuthorizationAlreadyExists''\<rparr>)
            example_request example_brain)
     (brain_key (params_nonce example_request)) = None \<and>
   \<not> typeof_object (JNum 7) \<and>
   access example_world example_request [brain_key ''abc'' \<mapsto> JNum 7] =
     \<lparr>store = [brain_key ''abc'' \<mapsto> JNum 7],
      trace = [BrainGet ''heimdall_access_abc'', Render ''not_found'' []],
      completion = Returned\<rparr>"
proof -
  have ua: "headers example_request ''user-agent'' = Some ''Mozilla/5.0''"
    by (simp add: example_defs)
  have nb: "\<not> match_Slackbot ''Mozilla/5.0''"
    by (simp add: match_Slackbot_def toLowerCase_def lower_char_def)
  have held: "example_brain (brain_key (params_nonce example_request)) = Some example_lease"
    by (simp add: example_defs)
  have num: "[brain_key ''abc'' \<mapsto> JNum 7] (brain_key (params_nonce example_request)) = Some (JNum 7)"
    by (simp add: example_defs)
  have obj: "typeof_object example_lease \<and> example_lease \<noteq> JNull"
    by (simp add: example_lease_def)
  have r1: "completion (access example_world example_request example_brain) = Returned"
    and r2: "completion (access (example_world\<lparr>now := 1600001\<rparr>) example_request example_brain) = Returned"
    and r3: "completion (access (example_world\<lparr>acl_err := Some ''AuthorizationAlreadyExists''\<rparr>)
                 example_request example_brain) = Returned"
    by (simp_all add: example_defs access_eval)
  note a = object_record_removed
    [where b = example_brain and req = example_request, OF ua nb held]
  note b = object_record_removed
    [where b = "[brain_key ''abc'' \<mapsto> JNum 7]" and req = example_request, OF ua nb num]
  have key: "brain_key (params_nonce example_request) = ''heimdall_access_abc''"
    by (simp add: brain_key_def example_request_def)
  show ?thesis
    using ua nb held obj r1 r2 r3 a b by (simp add: key)
qed

text \<open>
  C3, as stated, fails at the boundary: a visit exactly \<open>L\<close> seconds after the request
  (here \<open>L = 600\<close>, requested at 1000000, visited at 1600000) computes a ttl of 0, which is
  not below 0, and \<^verbatim>\<open>heimdall.allowAccessToIp\<close> is called with ttl 0.
\<close>

theorem ttl_at_lease_end_counterexample:
  "now (example_world\<lparr>now := 1600000\<rparr>) - 1000000 = 600 * 1000 \<and>
   trace (access (example_world\<lparr>now := 1600000\<rparr>) example_request example_brain) =
     [BrainGet ''heimdall_access_abc'',
      AllowAccess (GroupName ''db-uwhisp-test'') ''10.0.0.5/32'' (Num 0),
      BrainRemove ''heimdall_access_abc'',
      Render ''ip_success'' [(''ip'', ''10.0.0.5/32''), (''ttl'', ''0 minutes'')]]"
  by (simp add: example_defs access_eval)

text \<open>
  C3, amended. For a lease record with \<^verbatim>\<open>lease_duration\<close> \<open>L\<close>, \<^verbatim>\<open>requested\<close> \<open>t0\<close> and
  one of the two vault paths, a visit at \<open>t0 + d\<close> (\<open>d\<close> in milliseconds) computes
  \<open>ttl = L * 1000 - d\<close>, provided that \<open>L * 1000\<close>, \<open>t0\<close>, the time of the visit, \<open>d\<close> and
  \<open>L * 1000 - d\<close> are safe integers (of magnitude below \<open>2 ^ 53\<close>), so that line 71 computes
  them without rounding; when \<open>d \<le> L * 1000\<close> the handler calls the ACL backend with that
  ttl, and when \<open>d > L * 1000\<close> it renders \<^verbatim>\<open>not_found\<close>, removes the record and makes no
  ACL call.
\<close>

theorem ttl_expiry_boundary:
  assumes "headers req ''user-agent'' = Some ua" and "\<not> match_Slackbot ua"
    and "b (brain_key (params_nonce req)) = Some (JObj kvs)"
    and "map_of kvs ''lease_duration'' = Some (JNum L)"
    and "map_of kvs ''requested'' = Some (JNum t0)"
    and "map_of kvs ''vault_path'' = Some (JStr vault_path)"
    and "map_of SecGroupForVaultPath vault_path = Some g"
    and "now w = t0 + d"
    and "safe_integer (L * 1000)" and "safe_integer t0" and "safe_integer (now w)"
    and "safe_integer d" and "safe_integer (L * 1000 - d)"
  shows "compute_ttl w (JObj kvs) = Some (Num (L * 1000 - d)) \<and>
         (d \<le> L * 1000 \<longrightarrow>
            trace (access w req b) =
              [BrainGet (brain_key (params_nonce req)),
               AllowAccess (GroupName g) (client_ip req) (Num (L * 1000 - d)),
               BrainRemove (brain_key (params_nonce req)),
               (case acl_err w of
                  Some e \<Rightarrow> Render ''error'' [(''error'', e)]
                | None \<Rightarrow>
                    Render ''ip_success''
                      [(''ip'', client_ip req), (''ttl'', minutes (Num (L * 1000 - d)))])]) \<and>
         (L * 1000 < d \<longrightarrow>
            trace (access w req b) =
              [BrainGet (brain_key (params_nonce req)), Render ''not_found'' [],
               BrainRemove (brain_key (params_nonce req))])"
proof -
  have got: "brain_get b (brain_key (params_nonce req)) = JObj kvs"
    using assms(3) by (simp add: brain_get_object)
  have found: "\<not> missing (brain_get b (brain_key (params_nonce req)))"
    by (simp add: got missing_def)
  have ttl: "compute_ttl w (brain_get b (brain_key (params_nonce req))) = Some (Num (L * 1000 - d))"
    using compute_ttl_lease [OF assms(4,5), of w] assms(8-13) by (simp add: got)
  have grp: "sec_group (field (brain_get b (brain_key (params_nonce req))) ''vault_path'') =
      Some (GroupName g)"
    using assms(6,7) by (simp add: got field_def sec_group_def)
  have live: "trace (access w req b) =
              [BrainGet (brain_key (params_nonce req)),
               AllowAccess (GroupName g) (client_ip req) (Num (L * 1000 - d)),
               BrainRemove (brain_key (params_nonce req)),
               (case acl_err w of
                  Some e \<Rightarrow> Render ''error'' [(''error'', e)]
                | None \<Rightarrow>
                    Render ''ip_success''
                      [(''ip'', client_ip req), (''ttl'', minutes (Num (L * 1000 - d)))])]"
    if "d \<le> L * 1000"
  proof -
    have "\<not> num_negative (Num (L * 1000 - d))"
      using that by simp
    from access_authorize [OF assms(1,2) found ttl this grp] show ?thesis
      by simp
  qed
  have late: "trace (access w req b) =
              [BrainGet (brain_key (params_nonce req)), Render ''not_found'' [],
               BrainRemove (brain_key (params_nonce req))]"
    if "L * 1000 < d"
  proof -
    have "num_negative (Num (L * 1000 - d))"
      using that by simp
    from access_expired [OF assms(1,2) found ttl this] show ?thesis
      by simp
  qed
  from ttl live late show ?thesis unfolding got by blast
qed

theorem ttl_expiry_boundary_witness:
  "headers example_request ''user-agent'' = Some ''Mozilla/5.0'' \<and>
   \<not> match_Slackbot ''Mozilla/5.0'' \<and>
   example_brain (brain_key (params_nonce example_request)) = Some example_lease \<and>
   map_of SecGroupForVaultPath ''db_test'' = Some ''db-uwhisp-test'' \<and>
   safe_integer (600 * 1000) \<and> safe_integer 1000000 \<and>
   safe_integer (now example_world) \<and> safe_integer 120000 \<and>
   safe_integer (600 * 1000 - 120000) \<and>
   safe_integer (now (example_world\<lparr>now := 1600001\<rparr>)) \<and> safe_integer 600001 \<and>
   safe_integer (600 * 1000 - 600001) \<and>
   compute_ttl example_world example_lease = Some (Num 480000) \<and>
   trace (access example_world example_request example_brain) =
     [BrainGet ''heimdall_access_abc'',
      AllowAccess (GroupName ''db-uwhisp-test'') ''10.0.0.5/32'' (Num 480000),
      BrainRemove ''heimdall_access_abc'',
      Render ''ip_success'' [(''ip'', ''10.0.0.5/32''), (''ttl'', ''8 minutes'')]] \<and>
   compute_ttl (example_world\<lparr>now := 1600001\<rparr>) example_lease = Some (Num (- 1)) \<and>
   trace (access (example_world\<lparr>now := 1600001\<rparr>) example_request example_brain) =
     [BrainGet ''heimdall_access_abc'', Render ''not_found'' [],
      BrainRemove ''heimdall_access_abc'']"
proof -
  have ua: "headers example_request ''user-agent'' = Some ''Mozilla/5.0''"
    by (simp add: example_defs)
  have nb: "\<not> match_Slackbot ''Mozilla/5.0''"
    by (simp add: match_Slackbot_def toLowerCase_def lower_char_def)
  have held: "example_brain (brain_key (params_nonce example_request)) =
      Some (JObj [(''vault_path'', JStr ''db_test''), (''requested'', JNum 1000000),
                  (''lease_duration'', JNum 600)])"
    by (simp add: example_defs)
  have ld: "map_of [(''vault_path'', JStr ''db_test''), (''requested'', JNum 1000000),
                  (''lease_duration'', JNum 600)] ''lease_duration'' = Some (JNum 600)"
    by simp
  have rq: "map_of [(''vault_path'', JStr ''db_test''), (''requested'', JNum 1000000),
                  (''lease_duration'', JNum 600)] ''requested'' = Some (JNum 1000000)"
    by simp
  have vp: "map_of [(''vault_path'', JStr ''db_test''), (''requested'', JNum 1000000),
                  (''lease_duration'', JNum 600)] ''vault_path'' = Some (JStr ''db_test'')"
    by simp
  have sg: "map_of SecGroupForVaultPath ''db_test'' = Some ''db-uwhisp-test''"
    by (simp add: SecGroupForVaultPath_def)
  have early: "now example_world = 1000000 + 120000"
    by (simp add: example_defs)
  have late: "now (example_world\<lparr>now := 1600001\<rparr>) = 1000000 + 600001"
    by simp
  have sf: "safe_integer (600 * 1000)" "safe_integer 1000000"
      "safe_integer (now example_world)" "safe_integer 120000"
      "safe_integer (600 * 1000 - 120000)"
      "safe_integer (now (example_world\<lparr>now := 1600001\<rparr>))" "safe_integer 600001"
      "safe_integer (600 * 1000 - 600001)"
    by (simp_all add: safe_integer_def example_world_def)
  note a = ttl_expiry_boundary
    [where b = example_brain and req = example_request,
     OF ua nb held ld rq vp sg early sf(1,2,3,4,5)]
  note b = ttl_expiry_boundary
    [where b = example_brain and req = example_request,
     OF ua nb held ld rq vp sg late sf(1,2,6,7,8)]
  show ?thesis
    using ua nb held sg sf a b
    by (simp add: example_lease_def brain_key_def example_request_def example_world_def
          client_ip_def floor_quotient_480000 show_int_def digit_def)
qed

text \<open>
  C4, as stated, fails: the callback never inspects \<^verbatim>\<open>lease_duration\<close>. For a body that
  parses to an object without the field, a lease record with an undefined
  \<^verbatim>\<open>lease_duration\<close> is stored and the confirmation URL is sent.
\<close>

theorem lease_without_duration_counterexample:
  "respond example_config example_world example_message Map.empty =
     \<lparr>store =
        [''heimdall_access_abc'' \<mapsto>
           JObj [(''vault_path'', JStr ''db_test''), (''requested'', JNum 1120000),
                 (''lease_duration'', JUndefined)]],
      trace =
        [HttpGet ''https://vault.example/v1/db_test/creds/readonly'' ''s.token'',
         RoomSend ''dave'' ''Here ya go:'',
         BrainSet ''heimdall_access_abc''
           (JObj [(''vault_path'', JStr ''db_test''), (''requested'', JNum 1120000),
                  (''lease_duration'', JUndefined)]),
         RoomSend ''dave''
           ''Direct your browser here to enable access to DB from your current IP address\<newline>https://bot.example/heimdall/access/abc''],
      completion = Returned\<rparr>"
  by (simp add: example_defs example_config_def example_message_def respond_eval)

text \<open>
  C4, amended. For every response of the secret backend with a status of at most 299
  whose body parses to an object that the walk of \<^verbatim>\<open>parse\<close> accepts, the handler stores a
  lease record that carries the body's \<^verbatim>\<open>lease_duration\<close> as it is (undefined when the
  field is absent, the value itself when it is not a number) and sends the confirmation
  URL. Only a body that does not parse is reported as an error of the response, and then
  nothing is stored and no URL is sent.
\<close>

theorem lease_record_persisted_unvalidated:
  assumes "vault_token msg = Some token"
    and "access_level (toLowerCase (match1 msg)) = Some level"
    and "vault_path_for (toLowerCase (match2 msg)) = Some vp"
    and "err (vault_reply w) = None" and "res (vault_reply w) = Some code" and "code \<le> 299"
    and "body (vault_reply w) = Some s"
  shows
    "(\<forall>kvs. JSON_parse w s = Some (JObj kvs) \<and> \<not> parse_throws (JObj kvs) \<longrightarrow>
        store (respond cfg w msg b) =
          b(brain_key (fresh_nonce w) \<mapsto>
            JObj [(''vault_path'', JStr vp), (''requested'', JNum (now w)),
                  (''lease_duration'',
                   (case map_of kvs ''lease_duration'' of None \<Rightarrow> JUndefined | Some v \<Rightarrow> v))]) \<and>
        RoomSend (user_name msg)
          (''Direct your browser here to enable access to DB from your current IP address\<newline>''
           @ base_url cfg @ ''heimdall/access/'' @ fresh_nonce w)
          \<in> set (trace (respond cfg w msg b)) \<and>
        completion (respond cfg w msg b) = Returned) \<and>
     (JSON_parse w s = None \<longrightarrow>
        respond cfg w msg b =
          \<lparr>store = b,
           trace =
             [HttpGet (vault_url cfg vp level) token,
              Reply (Plain ''An error occurred parsing the vault response''),
              Reply (Plain s)],
           completion = Returned\<rparr>)"
proof (intro conjI allI impI)
  fix kvs
  assume p: "JSON_parse w s = Some (JObj kvs) \<and> \<not> parse_throws (JObj kvs)"
  then have ok: "JSON_parse w s = Some (JObj kvs)" and quiet: "\<not> parse_throws (JObj kvs)"
    by simp_all
  note cb = callback_success [OF assms(4,5,6,7) ok quiet, of cfg msg level vp b]
  note r = respond_valid [OF assms(1,2,3), of cfg w b]
  show "store (respond cfg w msg b) =
          b(brain_key (fresh_nonce w) \<mapsto>
            JObj [(''vault_path'', JStr vp), (''requested'', JNum (now w)),
                  (''lease_duration'',
                   (case map_of kvs ''lease_duration'' of None \<Rightarrow> JUndefined | Some v \<Rightarrow> v))])"
    by (simp add: r cb)
  show "RoomSend (user_name msg)
          (''Direct your browser here to enable access to DB from your current IP address\<newline>''
           @ base_url cfg @ ''heimdall/access/'' @ fresh_nonce w)
          \<in> set (trace (respond cfg w msg b))"
    by (simp add: r cb)
  show "completion (respond cfg w msg b) = Returned"
    by (simp add: r cb)
next
  assume "JSON_parse w s = None"
  note cb = callback_unparsable [OF assms(4,5,6,7) this, of cfg msg level vp b]
  note r = respond_valid [OF assms(1,2,3), of cfg w b]
  show "respond cfg w msg b =
          \<lparr>store = b,
           trace =
             [HttpGet (vault_url cfg vp level) token,
              Reply (Plain ''An error occurred parsing the vault response''),
              Reply (Plain s)],
           completion = Returned\<rparr>"
    by (simp add: r cb)
qed

theorem lease_record_persisted_unvalidated_witness:
  "vault_token example_message = Some ''s.token'' \<and>
   access_level (toLowerCase (match1 example_message)) = Some ''readonly'' \<and>
   vault_path_for (toLowerCase (match2 example_message)) = Some ''db_test'' \<and>
   vault_reply example_world = \<lparr>err = None, res = Some 200, body = Some ''{}''\<rparr> \<and>
   JSON_parse example_world ''{}'' = Some (JObj []) \<and>
   \<not> parse_throws (JObj []) \<and>
   store (respond example_config example_world example_message Map.empty) =
     [''heimdall_access_abc'' \<mapsto>
        JObj [(''vault_path'', JStr ''db_test''), (''requested'', JNum 1120000),
              (''lease_duration'', JUndefined)]] \<and>
   store (respond example_config
            (example_world\<lparr>JSON_parse := \<lambda>s. Some (JObj [(''lease_duration'', JStr ''soon'')])\<rparr>)
            example_message Map.empty) =
     [''heimdall_access_abc'' \<mapsto>
        JObj [(''vault_path'', JStr ''db_test''), (''requested'', JNum 1120000),
              (''lease_duration'', JStr ''soon'')]] \<and>
   respond example_config
     (example_world\<lparr>vault_reply := \<lparr>err = None, res = Some 200, body = Some ''<html>''\<rparr>\<rparr>)
     example_message Map.empty =
     \<lparr>store = Map.empty,
      trace =
        [HttpGet ''https://vault.example/v1/db_test/creds/readonly'' ''s.token'',
         Reply (Plain ''An error occurred parsing the vault response''),
         Reply (Plain ''<html>'')],
      completion = Returned\<rparr>"
proof -
  let ?w2 = "example_world\<lparr>JSON_parse := \<lambda>s. Some (JObj [(''lease_duration'', JStr ''soon'')])\<rparr>"
  let ?w3 = "example_world\<lparr>vault_reply := \<lparr>err = None, res = Some 200, body = Some ''<html>''\<rparr>\<rparr>"
  have tok: "vault_token example_message = Some ''s.token''"
    by (simp add: example_message_def)
  have lv: "access_level (toLowerCase (match1 example_message)) = Some ''readonly''"
    by (simp add: example_message_def access_level_def toLowerCase_def lower_char_def)
  have en: "vault_path_for (toLowerCase (match2 example_message)) = Some ''db_test''"
    by (simp add: example_message_def vault_path_for_def toLowerCase_def lower_char_def)
  have reply: "vault_reply example_world = \<lparr>err = None, res = Some 200, body = Some ''{}''\<rparr>"
    by (simp add: example_world_def)
  have e1: "err (vault_reply example_world) = None" and r1: "res (vault_reply example_world) = Some 200"
    and b1: "body (vault_reply example_world) = Some ''{}''"
    by (simp_all add: reply)
  have e2: "err (vault_reply ?w2) = None" and r2: "res (vault_reply ?w2) = Some 200"
    and b2: "body (vault_reply ?w2) = Some ''{}''"
    by (simp_all add: reply)
  have e3: "err (vault_reply ?w3) = None" and r3: "res (vault_reply ?w3) = Some 200"
    and b3: "body (vault_reply ?w3) = Some ''<html>''"
    by simp_all
  have ok: "(200::int) \<le> 299" by simp
  have p1: "JSON_parse example_world ''{}'' = Some (JObj [])"
    by (simp add: example_world_def)
  have p2: "JSON_parse ?w2 ''{}'' = Some (JObj [(''lease_duration'', JStr ''soon'')])"
    by simp
  have p3: "JSON_parse ?w3 ''<html>'' = None"
    by (simp add: example_world_def)
  have q1: "\<not> parse_throws (JObj [])" and q2: "\<not> parse_throws (JObj [(''lease_duration'', JStr ''soon'')])"
    by simp_all
  note t1 = lease_record_persisted_unvalidated
    [OF tok lv en e1 r1 ok b1, of example_config Map.empty]
  note t2 = lease_record_persisted_unvalidated
    [OF tok lv en e2 r2 ok b2, of example_config Map.empty]
  note t3 = lease_record_persisted_unvalidated
    [OF tok lv en e3 r3 ok b3, of example_config Map.empty]
  have k: "brain_key (fresh_nonce example_world) = ''heimdall_access_abc''"
    and n: "now example_world = 1120000"
    by (simp_all add: example_world_def brain_key_def)
  have s1: "store (respond example_config example_world example_message Map.empty) =
     [''heimdall_access_abc'' \<mapsto>
        JObj [(''vault_path'', JStr ''db_test''), (''requested'', JNum 1120000),
              (''lease_duration'', JUndefined)]]"
    using t1 p1 q1 by (simp add: k n)
  have s2: "store (respond example_config ?w2 example_message Map.empty) =
     [''heimdall_access_abc'' \<mapsto>
        JObj [(''vault_path'', JStr ''db_test''), (''requested'', JNum 1120000),
              (''lease_duration'', JStr ''soon'')]]"
    using t2 p2 q2 by (simp add: k n)
  have s3: "respond example_config ?w3 example_message Map.empty =
     \<lparr>store = Map.empty,
      trace =
        [HttpGet ''https://vault.example/v1/db_test/creds/readonly'' ''s.token'',
         Reply (Plain ''An error occurred parsing the vault response''),
         Reply (Plain ''<html>'')],
      completion = Returned\<rparr>"
    using t3 p3 by (simp add: vault_url_def example_config_def)
  from tok lv en reply p1 q1 s1 s2 s3 show ?thesis by simp
qed

text \<open>
  C5, as stated, fails: only the space character (U+0020) is removed from a header, by
  \<^verbatim>\<open>replace(/ /g, '')\<close> at lines 62 and 64; other whitespace stays. With a tab (U+0009)
  after the first entry of \<^verbatim>\<open>x-forwarded-for\<close>, the address keeps the tab, and the ACL
  backend is called with it.
\<close>

theorem forwarded_for_tab_kept_counterexample:
  "client_ip (example_request
       \<lparr>headers := [''user-agent'' \<mapsto> ''Mozilla/5.0'',
                    ''x-forwarded-for'' \<mapsto> ''10.0.0.5'' @ [CHR 0x09] @ '', 172.16.0.1'']\<rparr>) =
     ''10.0.0.5'' @ [CHR 0x09] @ ''/32'' \<and>
   trace (access example_world
       (example_request
          \<lparr>headers := [''user-agent'' \<mapsto> ''Mozilla/5.0'',
                       ''x-forwarded-for'' \<mapsto> ''10.0.0.5'' @ [CHR 0x09] @ '', 172.16.0.1'']\<rparr>)
       example_brain) =
     [BrainGet ''heimdall_access_abc'',
      AllowAccess (GroupName ''db-uwhisp-test'') (''10.0.0.5'' @ [CHR 0x09] @ ''/32'') (Num 480000),
      BrainRemove ''heimdall_access_abc'',
      Render ''ip_success''
        [(''ip'', ''10.0.0.5'' @ [CHR 0x09] @ ''/32''), (''ttl'', ''8 minutes'')]]"
  by (simp add: example_defs access_eval)

text \<open>
  C5, amended. The address is the \<^verbatim>\<open>x-real-ip\<close> header without its space characters
  (U+0020; any other character, a tab included, is kept) if that header is present,
  otherwise the part of the \<^verbatim>\<open>x-forwarded-for\<close> header before its first comma without
  its space characters if that header is present, otherwise the peer address of the
  connection; in each case \<^verbatim>\<open>/32\<close> is appended, and this is the address that the handler
  passes to the ACL backend.
\<close>

theorem client_ip_precedence:
  "(\<forall>v. headers req ''x-real-ip'' = Some v \<longrightarrow>
        client_ip req = filter (\<lambda>c. c \<noteq> CHR '' '') v @ ''/32'') \<and>
   (\<forall>v. headers req ''x-real-ip'' = None \<and> headers req ''x-forwarded-for'' = Some v \<longrightarrow>
        client_ip req =
          filter (\<lambda>c. c \<noteq> CHR '' '') (takeWhile (\<lambda>c. c \<noteq> CHR '','') v) @ ''/32'') \<and>
   (headers req ''x-real-ip'' = None \<and> headers req ''x-forwarded-for'' = None \<longrightarrow>
        client_ip req = remoteAddress req @ ''/32'') \<and>
   (\<forall>g ip t. AllowAccess g ip t \<in> set (trace (access w req b)) \<longrightarrow> ip = client_ip req)"
  by (auto simp: client_ip_def remove_spaces_def first_hop_def hd_split_on access_def Let_def
           split: option.splits if_splits)

theorem client_ip_precedence_witness:
  "client_ip \<lparr>headers = [''user-agent'' \<mapsto> ''Mozilla/5.0'', ''x-real-ip'' \<mapsto> '' 10.0.0.5 '',
                         ''x-forwarded-for'' \<mapsto> ''192.168.1.1, 172.16.0.1''],
              params_nonce = ''abc'', remoteAddress = ''127.0.0.1''\<rparr> = ''10.0.0.5/32'' \<and>
   client_ip \<lparr>headers = [''user-agent'' \<mapsto> ''Mozilla/5.0'',
                         ''x-forwarded-for'' \<mapsto> '' 192.168.1.1 , 172.16.0.1''],
              params_nonce = ''abc'', remoteAddress = ''127.0.0.1''\<rparr> = ''192.168.1.1/32'' \<and>
   client_ip example_request = ''10.0.0.5/32'' \<and>
   AllowAccess (GroupName ''db-uwhisp-test'') ''10.0.0.5/32'' (Num 480000)
     \<in> set (trace (access example_world example_request example_brain))"
  using
    client_ip_precedence
      [of "\<lparr>headers = [''user-agent'' \<mapsto> ''Mozilla/5.0'', ''x-real-ip'' \<mapsto> '' 10.0.0.5 '',
                         ''x-forwarded-for'' \<mapsto> ''192.168.1.1, 172.16.0.1''],
              params_nonce = ''abc'', remoteAddress = ''127.0.0.1''\<rparr>" example_world example_brain]
    client_ip_precedence
      [of "\<lparr>headers = [''user-agent'' \<mapsto> ''Mozilla/5.0'',
                         ''x-forwarded-for'' \<mapsto> '' 192.168.1.1 , 172.16.0.1''],
              params_nonce = ''abc'', remoteAddress = ''127.0.0.1''\<rparr>" example_world example_brain]
    client_ip_precedence [of example_request example_world example_brain]
  by (simp add: example_defs access_eval)

text \<open>
  C6. A request whose user-agent matches \<^verbatim>\<open>/Slackbot/i\<close> is answered with status 200
  and nothing else happens: the brain is neither read nor changed and the ACL backend is
  not called.
\<close>

theorem crawler_short_circuit:
  assumes "headers req ''user-agent'' = Some ua" and "match_Slackbot ua"
  shows "access w req b = \<lparr>store = b, trace = [SendStatus 200], completion = Returned\<rparr> \<and>
         BrainGet (brain_key (params_nonce req)) \<notin> set (trace (access w req b)) \<and>
         BrainRemove (brain_key (params_nonce req)) \<notin> set (trace (access w req b)) \<and>
         (\<forall>g ip t. AllowAccess g ip t \<notin> set (trace (access w req b)))"
  using assms by (simp add: access_crawler)

theorem crawler_short_circuit_witness:
  "headers crawler_request ''user-agent'' = Some ''Slackbot-LinkExpanding 1.0'' \<and>
   match_Slackbot ''Slackbot-LinkExpanding 1.0'' \<and>
   example_brain (brain_key (params_nonce crawler_request)) = Some example_lease \<and>
   access example_world crawler_request example_brain =
     \<lparr>store = example_brain, trace = [SendStatus 200], completion = Returned\<rparr>"
proof -
  have ua: "headers crawler_request ''user-agent'' = Some ''Slackbot-LinkExpanding 1.0''"
    by (simp add: example_defs)
  have bot: "match_Slackbot ''Slackbot-LinkExpanding 1.0''"
    by (simp add: match_Slackbot_def toLowerCase_def lower_char_def)
  have held: "example_brain (brain_key (params_nonce crawler_request)) = Some example_lease"
    by (simp add: example_defs)
  show ?thesis
    using crawler_short_circuit [OF ua bot, of example_world example_brain] ua bot held
    by simp
qed

text \<open>
  C7. With a vault token present: the lower-cased level \<^verbatim>\<open>read\<close> or \<^verbatim>\<open>ro\<close> maps to
  \<^verbatim>\<open>readonly\<close>, \<^verbatim>\<open>write\<close> or \<^verbatim>\<open>rw\<close> to \<^verbatim>\<open>readwrite\<close>, \<^verbatim>\<open>admin\<close> to \<^verbatim>\<open>admin\<close>; the
  lower-cased environment \<^verbatim>\<open>prod\<close> or \<^verbatim>\<open>production\<close> maps to \<^verbatim>\<open>db_production\<close>,
  \<^verbatim>\<open>test\<close> to \<^verbatim>\<open>db_test\<close>. A valid pair leads to the request to vault for that path and
  level. Any other level or environment is answered with one message that names the
  accepted values; vault is not called and the brain is left as it is.
\<close>

theorem level_environment_normalization:
  assumes "vault_token msg = Some token"
  shows
    "(l = ''read'' \<or> l = ''ro'' \<longrightarrow> access_level l = Some ''readonly'') \<and>
     (l = ''write'' \<or> l = ''rw'' \<longrightarrow> access_level l = Some ''readwrite'') \<and>
     (l = ''admin'' \<longrightarrow> access_level l = Some ''admin'') \<and>
     (l \<notin> {''read'', ''ro'', ''write'', ''rw'', ''admin''} \<longrightarrow> access_level l = None) \<and>
     (e = ''prod'' \<or> e = ''production'' \<longrightarrow> vault_path_for e = Some ''db_production'') \<and>
     (e = ''test'' \<longrightarrow> vault_path_for e = Some ''db_test'') \<and>
     (e \<notin> {''prod'', ''production'', ''test''} \<longrightarrow> vault_path_for e = None) \<and>
     (\<forall>level vp.
        access_level (toLowerCase (match1 msg)) = Some level \<and>
        vault_path_for (toLowerCase (match2 msg)) = Some vp \<longrightarrow>
        hd (trace (respond cfg w msg b)) =
          HttpGet (vault_base_url cfg @ ''/v1/'' @ vp @ ''/creds/'' @ level) token) \<and>
     (access_level (toLowerCase (match1 msg)) = None \<longrightarrow>
        respond cfg w msg b =
          \<lparr>store = b,
           trace =
             [Send (Format
                (sorry_dave cfg @
                 ''\<newline>Unknown access level *%s*.\<newline>Must be read, ro, write, rw or admin'')
                [AStr (user_name msg), AUndefined])],
           completion = Returned\<rparr>) \<and>
     (\<forall>level.
        access_level (toLowerCase (match1 msg)) = Some level \<and>
        vault_path_for (toLowerCase (match2 msg)) = None \<longrightarrow>
        respond cfg w msg b =
          \<lparr>store = b,
           trace =
             [Send (Format
                (sorry_dave cfg @
                 ''\<newline>Unknown environment *%s*.\<newline>Must be production, prod or test'')
                [AStr (user_name msg), AStr (match2 msg)])],
           completion = Returned\<rparr>)"
proof -
  have levels:
    "(l = ''read'' \<or> l = ''ro'' \<longrightarrow> access_level l = Some ''readonly'') \<and>
     (l = ''write'' \<or> l = ''rw'' \<longrightarrow> access_level l = Some ''readwrite'') \<and>
     (l = ''admin'' \<longrightarrow> access_level l = Some ''admin'') \<and>
     (l \<notin> {''read'', ''ro'', ''write'', ''rw'', ''admin''} \<longrightarrow> access_level l = None)"
    by (auto simp: access_level_def)
  have envs:
    "(e = ''prod'' \<or> e = ''production'' \<longrightarrow> vault_path_for e = Some ''db_production'') \<and>
     (e = ''test'' \<longrightarrow> vault_path_for e = Some ''db_test'') \<and>
     (e \<notin> {''prod'', ''production'', ''test''} \<longrightarrow> vault_path_for e = None)"
    by (auto simp: vault_path_for_def)
  have valid: "hd (trace (respond cfg w msg b)) =
          HttpGet (vault_base_url cfg @ ''/v1/'' @ vp @ ''/creds/'' @ level) token"
    if "access_level (toLowerCase (match1 msg)) = Some level"
      and "vault_path_for (toLowerCase (match2 msg)) = Some vp" for level vp
    using that assms by (simp add: respond_def Let_def vault_url_def)
  have bad_level: "respond cfg w msg b =
          \<lparr>store = b,
           trace =
             [Send (Format
                (sorry_dave cfg @
                 ''\<newline>Unknown access level *%s*.\<newline>Must be read, ro, write, rw or admin'')
                [AStr (user_name msg), AUndefined])],
           completion = Returned\<rparr>"
    if "access_level (toLowerCase (match1 msg)) = None"
    using that assms by (simp add: respond_def)
  have bad_env: "respond cfg w msg b =
          \<lparr>store = b,
           trace =
             [Send (Format
                (sorry_dave cfg @
                 ''\<newline>Unknown environment *%s*.\<newline>Must be production, prod or test'')
                [AStr (user_name msg), AStr (match2 msg)])],
           completion = Returned\<rparr>"
    if "access_level (toLowerCase (match1 msg)) = Some level"
      and "vault_path_for (toLowerCase (match2 msg)) = None" for level
    using that assms by (simp add: respond_def)
  from valid have valid':
    "\<forall>level vp.
        access_level (toLowerCase (match1 msg)) = Some level \<and>
        vault_path_for (toLowerCase (match2 msg)) = Some vp \<longrightarrow>
        hd (trace (respond cfg w msg b)) =
          HttpGet (vault_base_url cfg @ ''/v1/'' @ vp @ ''/creds/'' @ level) token"
    by (intro allI impI) (elim conjE)
  from bad_level have bad_level':
    "access_level (toLowerCase (match1 msg)) = None \<longrightarrow>
        respond cfg w msg b =
          \<lparr>store = b,
           trace =
             [Send (Format
                (sorry_dave cfg @
                 ''\<newline>Unknown access level *%s*.\<newline>Must be read, ro, write, rw or admin'')
                [AStr (user_name msg), AUndefined])],
           completion = Returned\<rparr>"
    by (intro impI)
  from bad_env have bad_env':
    "\<forall>level.
        access_level (toLowerCase (match1 msg)) = Some level \<and>
        vault_path_for (toLowerCase (match2 msg)) = None \<longrightarrow>
        respond cfg w msg b =
          \<lparr>store = b,
           trace =
             [Send (Format
                (sorry_dave cfg @
                 ''\<newline>Unknown environment *%s*.\<newline>Must be production, prod or test'')
                [AStr (user_name msg), AStr (match2 msg)])],
           completion = Returned\<rparr>"
    by (intro allI impI) (elim conjE)
  from levels envs valid' bad_level' bad_env' show ?thesis
    by (elim conjE, intro conjI) assumption+
qed

theorem level_environment_normalization_witness:
  "vault_token example_message = Some ''s.token'' \<and>
   access_level (toLowerCase ''RO'') = Some ''readonly'' \<and>
   vault_path_for (toLowerCase ''Test'') = Some ''db_test'' \<and>
   hd (trace (respond example_config example_world example_message Map.empty)) =
     HttpGet ''https://vault.example/v1/db_test/creds/readonly'' ''s.token'' \<and>
   access_level (toLowerCase ''bogus'') = None \<and>
   respond example_config example_world (example_message\<lparr>match1 := ''bogus''\<rparr>) Map.empty =
     \<lparr>store = Map.empty,
      trace =
        [Send (Format
           ''Sorry %s.\<newline>Unknown access level *%s*.\<newline>Must be read, ro, write, rw or admin''
           [AStr ''dave'', AUndefined])],
      completion = Returned\<rparr> \<and>
   vault_path_for (toLowerCase ''Staging'') = None \<and>
   respond example_config example_world (example_message\<lparr>match2 := ''Staging''\<rparr>) Map.empty =
     \<lparr>store = Map.empty,
      trace =
        [Send (Format
           ''Sorry %s.\<newline>Unknown environment *%s*.\<newline>Must be production, prod or test''
           [AStr ''dave'', AStr ''Staging''])],
      completion = Returned\<rparr>"
proof -
  have tok: "vault_token m = Some ''s.token''"
    if "m = example_message \<or> m = example_message\<lparr>match1 := ''bogus''\<rparr> \<or>
        m = example_message\<lparr>match2 := ''Staging''\<rparr>" for m
    using that by (auto simp: example_message_def)
  have ro: "access_level (toLowerCase ''RO'') = Some ''readonly''"
    by (simp add: access_level_def toLowerCase_def lower_char_def)
  have test: "vault_path_for (toLowerCase ''Test'') = Some ''db_test''"
    by (simp add: vault_path_for_def toLowerCase_def lower_char_def)
  have bogus: "access_level (toLowerCase ''bogus'') = None"
    by (simp add: access_level_def toLowerCase_def lower_char_def)
  have staging: "vault_path_for (toLowerCase ''Staging'') = None"
    by (simp add: vault_path_for_def toLowerCase_def lower_char_def)
  note a = level_environment_normalization
    [where msg = example_message and cfg = example_config and w = example_world
       and b = Map.empty, OF tok]
  note b = level_environment_normalization
    [where msg = "example_message\<lparr>match1 := ''bogus''\<rparr>" and cfg = example_config
       and w = example_world and b = Map.empty, OF tok]
  note c = level_environment_normalization
    [where msg = "example_message\<lparr>match2 := ''Staging''\<rparr>" and cfg = example_config
       and w = example_world and b = Map.empty, OF tok]
  have m1: "match1 example_message = ''RO''" and m2: "match2 example_message = ''Test''"
    and n: "user_name example_message = ''dave''"
    by (simp_all add: example_message_def)
  have "hd (trace (respond example_config example_world example_message Map.empty)) =
     HttpGet ''https://vault.example/v1/db_test/creds/readonly'' ''s.token''"
    using a ro test by (simp add: m1 m2 example_config_def)
  moreover have "respond example_config example_world (example_message\<lparr>match1 := ''bogus''\<rparr>) Map.empty =
     \<lparr>store = Map.empty,
      trace =
        [Send (Format
           ''Sorry %s.\<newline>Unknown access level *%s*.\<newline>Must be read, ro, write, rw or admin''
           [AStr ''dave'', AUndefined])],
      completion = Returned\<rparr>"
    using b bogus by (simp add: n example_config_def)
  moreover have "respond example_config example_world (example_message\<lparr>match2 := ''Staging''\<rparr>) Map.empty =
     \<lparr>store = Map.empty,
      trace =
        [Send (Format
           ''Sorry %s.\<newline>Unknown environment *%s*.\<newline>Must be production, prod or test''
           [AStr ''dave'', AStr ''Staging''])],
      completion = Returned\<rparr>"
    using c ro staging by (simp add: m1 n example_config_def)
  ultimately show ?thesis
    using tok [of example_message] ro test bogus staging by simp
qed

text \<open>
  C8. For one request, the reports of the callback for the four classes of failure are
  pairwise different, as traces and as the texts the caller reads: a transport failure
  always carries an \<^verbatim>\<open>Error:\<close> reply and an unexpected status never does; both are
  replies, whereas the statuses 401, 400 and 404 and the status 503 are each one message
  sent, with different texts. The message for 401, 400 and 404 is formatted from the user's
  name, the level and the vault path alone. Every failure ends the request: the brain is
  left as it is and the callback makes no further request.
\<close>

theorem backend_failures_distinct:
  assumes "spec_failure (vault_reply w1) = Some f1"
    and "spec_failure (vault_reply w2) = Some f2"
    and "f1 \<noteq> f2"
    and "level \<in> {''readonly'', ''readwrite'', ''admin''}"
    and "vp \<in> {''db_production'', ''db_test''}"
  shows "trace (vault_callback cfg w1 msg level vp b) \<noteq> trace (vault_callback cfg w2 msg level vp b) \<and>
         (\<forall>s1 s2. shown_trace (trace (vault_callback cfg w1 msg level vp b)) = Some s1 \<and>
                  shown_trace (trace (vault_callback cfg w2 msg level vp b)) = Some s2 \<longrightarrow>
                  s1 \<noteq> s2) \<and>
         (f1 = Unauthorized \<longrightarrow>
            trace (vault_callback cfg w1 msg level vp b) =
              [Send (Format
                 (sorry_dave cfg @
                  ''\<newline>You're not authorized to request *%s* access to *%s* database'')
                 [AStr (user_name msg), AStr level, AStr vp])]) \<and>
         store (vault_callback cfg w1 msg level vp b) = b \<and>
         completion (vault_callback cfg w1 msg level vp b) = Returned \<and>
         (\<forall>url token. HttpGet url token \<notin> set (trace (vault_callback cfg w1 msg level vp b)))"
proof -
  let ?t1 = "trace (vault_callback cfg w1 msg level vp b)"
  let ?t2 = "trace (vault_callback cfg w2 msg level vp b)"
  let ?A = "Send (Format
                 (sorry_dave cfg @
                  ''\<newline>You're not authorized to request *%s* access to *%s* database'')
                 [AStr (user_name msg), AStr level, AStr vp])"
  let ?B = "Send (Format
                 (sorry_dave cfg @
                  ''\<newline>Vault is sealed and cannot retreave any data from it'')
                 [AStr (user_name msg)])"
  have shape:
    "(f = BackendUnreachable \<longrightarrow>
        trace (vault_callback cfg w msg level vp b) = unknownError (vault_reply w) \<and>
        err (vault_reply w) \<noteq> None) \<and>
     (f = UnknownBackendError \<longrightarrow>
        trace (vault_callback cfg w msg level vp b) = unknownError (vault_reply w) \<and>
        err (vault_reply w) = None) \<and>
     (f = Unauthorized \<longrightarrow> trace (vault_callback cfg w msg level vp b) = [?A]) \<and>
     (f = BackendUnavailable \<longrightarrow> trace (vault_callback cfg w msg level vp b) = [?B]) \<and>
     store (vault_callback cfg w msg level vp b) = b \<and>
     completion (vault_callback cfg w msg level vp b) = Returned"
    if "spec_failure (vault_reply w) = Some f" for f w
    using that callback_unreachable [of w cfg msg level vp b]
      callback_unknown [of w cfg msg level vp b]
      callback_unauthorized [of w cfg msg level vp b]
      callback_unavailable [of w cfg msg level vp b]
    by (cases f) simp_all
  note k1 = shape [OF assms(1)]
  note k2 = shape [OF assms(2)]
  have replies: "unknownError r \<noteq> [Send t]" for r t
    by (simp add: unknownError_def)
  have err_line: "unknownError r1 \<noteq> unknownError r2" if "err r1 \<noteq> None" "err r2 = None" for r1 r2
    using unknownError_err [OF that(1)] unknownError_no_err [OF that(2)] by metis
  have AB: "[?A] \<noteq> [?B]" by simp
  have shown_AB: "s1 \<noteq> s2" if "shown_trace [?A] = Some s1" "shown_trace [?B] = Some s2" for s1 s2
  proof -
    from shown_trace_Send [OF that(1)] obtain r1 where r1:
      "render (Format
                 (sorry_dave cfg @
                  ''\<newline>You're not authorized to request *%s* access to *%s* database'')
                 [AStr (user_name msg), AStr level, AStr vp]) = Some r1" "s1 = [Send (Plain r1)]"
      by blast
    from shown_trace_Send [OF that(2)] obtain r2 where r2:
      "render (Format
                 (sorry_dave cfg @
                  ''\<newline>Vault is sealed and cannot retreave any data from it'')
                 [AStr (user_name msg)]) = Some r2" "s2 = [Send (Plain r2)]"
      by blast
    from unauthorized_unavailable_rendered_differ [OF assms(4,5) r1(1) r2(1)] r1(2) r2(2)
    show ?thesis by simp
  qed
  have shown_reply_send: "s1 \<noteq> s2"
    if "shown_trace (unknownError r) = Some s1" "shown_trace [Send t] = Some s2" for r t s1 s2
  proof -
    from that(1) have "s1 = unknownError r" by (simp add: shown_trace_unknownError)
    moreover from shown_trace_Send [OF that(2)] obtain x where "s2 = [Send (Plain x)]" by blast
    ultimately show ?thesis using replies [of r "Plain x"] by simp
  qed
  have differ: "?t1 \<noteq> ?t2"
  proof (cases f1)
    case BackendUnreachable
    with assms(3) k1 k2 err_line replies AB show ?thesis by (cases f2) auto
  next
    case Unauthorized
    with assms(3) k1 k2 err_line replies [symmetric] AB show ?thesis by (cases f2) auto
  next
    case BackendUnavailable
    with assms(3) k1 k2 err_line replies [symmetric] AB [symmetric] show ?thesis by (cases f2) auto
  next
    case UnknownBackendError
    with assms(3) k1 k2 err_line [symmetric] replies AB show ?thesis by (cases f2) auto
  qed
  have shown_differ: "s1 \<noteq> s2"
    if s: "shown_trace ?t1 = Some s1" "shown_trace ?t2 = Some s2" for s1 s2
  proof (cases f1)
    case BackendUnreachable
    show ?thesis
    proof (cases f2)
      case BackendUnreachable
      with assms(3) \<open>f1 = BackendUnreachable\<close> show ?thesis by simp
    next
      case Unauthorized
      with k1 k2 s \<open>f1 = BackendUnreachable\<close> shown_reply_send show ?thesis by simp
    next
      case BackendUnavailable
      with k1 k2 s \<open>f1 = BackendUnreachable\<close> shown_reply_send show ?thesis by simp
    next
      case UnknownBackendError
      with k1 k2 s \<open>f1 = BackendUnreachable\<close> err_line [of "vault_reply w1" "vault_reply w2"]
      show ?thesis by (auto simp: shown_trace_unknownError)
    qed
  next
    case Unauthorized
    show ?thesis
    proof (cases f2)
      case BackendUnreachable
      with k1 k2 s \<open>f1 = Unauthorized\<close> shown_reply_send [of _ s2 _ s1] show ?thesis by auto
    next
      case Unauthorized
      with assms(3) \<open>f1 = Unauthorized\<close> show ?thesis by simp
    next
      case BackendUnavailable
      with k1 k2 s \<open>f1 = Unauthorized\<close> shown_AB show ?thesis by simp
    next
      case UnknownBackendError
      with k1 k2 s \<open>f1 = Unauthorized\<close> shown_reply_send [of _ s2 _ s1] show ?thesis by auto
    qed
  next
    case BackendUnavailable
    show ?thesis
    proof (cases f2)
      case BackendUnreachable
      with k1 k2 s \<open>f1 = BackendUnavailable\<close> shown_reply_send [of _ s2 _ s1] show ?thesis by auto
    next
      case Unauthorized
      with k1 k2 s \<open>f1 = BackendUnavailable\<close> shown_AB [of s2 s1] show ?thesis by auto
    next
      case BackendUnavailable
      with assms(3) \<open>f1 = BackendUnavailable\<close> show ?thesis by simp
    next
      case UnknownBackendError
      with k1 k2 s \<open>f1 = BackendUnavailable\<close> shown_reply_send [of _ s2 _ s1] show ?thesis by auto
    qed
  next
    case UnknownBackendError
    show ?thesis
    proof (cases f2)
      case BackendUnreachable
      with k1 k2 s \<open>f1 = UnknownBackendError\<close> err_line [of "vault_reply w2" "vault_reply w1"]
      show ?thesis by (auto simp: shown_trace_unknownError)
    next
      case Unauthorized
      with k1 k2 s \<open>f1 = UnknownBackendError\<close> shown_reply_send show ?thesis by simp
    next
      case BackendUnavailable
      with k1 k2 s \<open>f1 = UnknownBackendError\<close> shown_reply_send show ?thesis by simp
    next
      case UnknownBackendError
      with assms(3) \<open>f1 = UnknownBackendError\<close> show ?thesis by simp
    qed
  qed
  have quiet: "\<forall>url token. HttpGet url token \<notin> set ?t1"
    using k1 by (cases f1) (auto dest: unknownError_replies)
  from differ shown_differ k1 quiet show ?thesis by blast
qed

theorem backend_failures_distinct_witness:
  "spec_failure \<lparr>err = Some ''Error: connect ECONNREFUSED'', res = None, body = None\<rparr> =
     Some BackendUnreachable \<and>
   spec_failure \<lparr>err = None, res = Some 500, body = Some ''boom''\<rparr> = Some UnknownBackendError \<and>
   spec_failure \<lparr>err = None, res = Some 401, body = Some ''denied''\<rparr> = Some Unauthorized \<and>
   spec_failure \<lparr>err = None, res = Some 503, body = Some ''sealed''\<rparr> = Some BackendUnavailable \<and>
   trace (vault_callback example_config
            (example_world\<lparr>vault_reply :=
               \<lparr>err = Some ''Error: connect ECONNREFUSED'', res = None, body = None\<rparr>\<rparr>)
            example_message ''readonly'' ''db_test'' Map.empty) =
     [Reply (Plain ''An error occurred talking to vault, please try again in a few moments''),
      Reply (Plain ''Error: Error: connect ECONNREFUSED'')] \<and>
   trace (vault_callback example_config
            (example_world\<lparr>vault_reply := \<lparr>err = None, res = Some 500, body = Some ''boom''\<rparr>\<rparr>)
            example_message ''readonly'' ''db_test'' Map.empty) =
     [Reply (Plain ''An error occurred talking to vault, please try again in a few moments''),
      Reply (Plain ''Status code: 500''), Reply (Plain ''Body: boom'')] \<and>
   shown_trace (trace (vault_callback example_config
            (example_world\<lparr>vault_reply := \<lparr>err = None, res = Some 401, body = Some ''denied''\<rparr>\<rparr>)
            example_message ''readonly'' ''db_test'' Map.empty)) =
     Some [Send (Plain
       ''Sorry dave.\<newline>You're not authorized to request *readonly* access to *db_test* database'')] \<and>
   shown_trace (trace (vault_callback example_config
            (example_world\<lparr>vault_reply := \<lparr>err = None, res = Some 503, body = Some ''sealed''\<rparr>\<rparr>)
            example_message ''readonly'' ''db_test'' Map.empty)) =
     Some [Send (Plain ''Sorry dave.\<newline>Vault is sealed and cannot retreave any data from it'')] \<and>
   trace (vault_callback example_config
            (example_world\<lparr>vault_reply :=
               \<lparr>err = Some ''Error: connect ECONNREFUSED'', res = None, body = None\<rparr>\<rparr>)
            example_message ''readonly'' ''db_test'' Map.empty) \<noteq>
   trace (vault_callback example_config
            (example_world\<lparr>vault_reply := \<lparr>err = None, res = Some 500, body = Some ''boom''\<rparr>\<rparr>)
            example_message ''readonly'' ''db_test'' Map.empty) \<and>
   trace (vault_callback example_config
            (example_world\<lparr>vault_reply := \<lparr>err = None, res = Some 401, body = Some ''denied''\<rparr>\<rparr>)
            example_message ''readonly'' ''db_test'' Map.empty) \<noteq>
   trace (vault_callback example_config
            (example_world\<lparr>vault_reply := \<lparr>err = None, res = Some 503, body = Some ''sealed''\<rparr>\<rparr>)
            example_message ''readonly'' ''db_test'' Map.empty)"
proof -
  let ?wu = "example_world\<lparr>vault_reply :=
               \<lparr>err = Some ''Error: connect ECONNREFUSED'', res = None, body = None\<rparr>\<rparr>"
  let ?wk = "example_world\<lparr>vault_reply := \<lparr>err = None, res = Some 500, body = Some ''boom''\<rparr>\<rparr>"
  let ?wa = "example_world\<lparr>vault_reply := \<lparr>err = None, res = Some 401, body = Some ''denied''\<rparr>\<rparr>"
  let ?ws = "example_world\<lparr>vault_reply := \<lparr>err = None, res = Some 503, body = Some ''sealed''\<rparr>\<rparr>"
  have u: "spec_failure (vault_reply ?wu) = Some BackendUnreachable"
    and k: "spec_failure (vault_reply ?wk) = Some UnknownBackendError"
    and a: "spec_failure (vault_reply ?wa) = Some Unauthorized"
    and s: "spec_failure (vault_reply ?ws) = Some BackendUnavailable"
    by (simp_all add: spec_failure_def)
  have d1: "BackendUnreachable \<noteq> UnknownBackendError" and d2: "Unauthorized \<noteq> BackendUnavailable"
    by simp_all
  have lv: "''readonly'' \<in> {''readonly'', ''readwrite'', ''admin''}"
    and en: "''db_test'' \<in> {''db_production'', ''db_test''}"
    by simp_all
  note p = backend_failures_distinct [OF u k d1 lv en, of example_config example_message Map.empty]
  note q = backend_failures_distinct [OF a s d2 lv en, of example_config example_message Map.empty]
  have tu: "trace (vault_callback example_config ?wu example_message ''readonly'' ''db_test'' Map.empty) =
     [Reply (Plain ''An error occurred talking to vault, please try again in a few moments''),
      Reply (Plain ''Error: Error: connect ECONNREFUSED'')]"
    by (simp add: vault_callback_def unknownError_def)
  have tk: "trace (vault_callback example_config ?wk example_message ''readonly'' ''db_test'' Map.empty) =
     [Reply (Plain ''An error occurred talking to vault, please try again in a few moments''),
      Reply (Plain ''Status code: 500''), Reply (Plain ''Body: boom'')]"
    by (simp add: vault_callback_def unknownError_def show_int_def digit_def)
  have ta: "shown_trace (trace (vault_callback example_config ?wa example_message ''readonly''
        ''db_test'' Map.empty)) =
     Some [Send (Plain
       ''Sorry dave.\<newline>You're not authorized to request *readonly* access to *db_test* database'')]"
    by (simp add: vault_callback_def shown_trace_def example_config_def example_message_def)
  have ts: "shown_trace (trace (vault_callback example_config ?ws example_message ''readonly''
        ''db_test'' Map.empty)) =
     Some [Send (Plain ''Sorry dave.\<newline>Vault is sealed and cannot retreave any data from it'')]"
    by (simp add: vault_callback_def shown_trace_def example_config_def example_message_def)
  from p have pd: "trace (vault_callback example_config ?wu example_message ''readonly'' ''db_test'' Map.empty) \<noteq>
      trace (vault_callback example_config ?wk example_message ''readonly'' ''db_test'' Map.empty)"
    by (rule conjunct1)
  from q have qd: "trace (vault_callback example_config ?wa example_message ''readonly'' ''db_test'' Map.empty) \<noteq>
      trace (vault_callback example_config ?ws example_message ''readonly'' ''db_test'' Map.empty)"
    by (rule conjunct1)
  have specs:
    "spec_failure \<lparr>err = Some ''Error: connect ECONNREFUSED'', res = None, body = None\<rparr> =
       Some BackendUnreachable"
    "spec_failure \<lparr>err = None, res = Some 500, body = Some ''boom''\<rparr> = Some UnknownBackendError"
    "spec_failure \<lparr>err = None, res = Some 401, body = Some ''denied''\<rparr> = Some Unauthorized"
    "spec_failure \<lparr>err = None, res = Some 503, body = Some ''sealed''\<rparr> = Some BackendUnavailable"
    by (simp_all add: spec_failure_def)
  from specs tu tk ta ts pd qd show ?thesis
    by (intro conjI)
qed

text \<open>
  C9. The code at the failing input: for the level \<^verbatim>\<open>bogus\<close> the message is formatted
  with the variable \<^verbatim>\<open>level\<close>, which is undefined in the \<^verbatim>\<open>default\<close> branch, so it reads
  \<^verbatim>\<open>*undefined*\<close> where the rejected token should stand; the message for a rejected
  environment is formatted with the token itself.
\<close>

theorem unknown_level_message_omits_token:
  "trace (respond cfg w
            \<lparr>user_name = ''dave'', vault_token = Some token, match1 = ''bogus'',
             match2 = ''test'', room_differs = r\<rparr> b) =
     [Send (Format
        (sorry_dave cfg @
         ''\<newline>Unknown access level *%s*.\<newline>Must be read, ro, write, rw or admin'')
        [AStr ''dave'', AUndefined])] \<and>
   render (Format
        (sorry_dave example_config @
         ''\<newline>Unknown access level *%s*.\<newline>Must be read, ro, write, rw or admin'')
        [AStr ''dave'', AUndefined]) =
     Some ''Sorry dave.\<newline>Unknown access level *undefined*.\<newline>Must be read, ro, write, rw or admin'' \<and>
   render (Format
        (sorry_dave example_config @
         ''\<newline>Unknown environment *%s*.\<newline>Must be production, prod or test'')
        [AStr ''dave'', AStr ''bogus'']) =
     Some ''Sorry dave.\<newline>Unknown environment *bogus*.\<newline>Must be production, prod or test''"
  by (simp add: respond_def access_level_def toLowerCase_def lower_char_def example_config_def)

text \<open>
  C10. The code at the failing input: on a request without a user-agent header the
  handler raises a TypeError before it sends any response.
\<close>

theorem missing_user_agent_raises:
  "access w \<lparr>headers = Map.empty, params_nonce = n, remoteAddress = a\<rparr> b =
     \<lparr>store = b, trace = [], completion = TypeError\<rparr>"
  by (simp add: access_def)

end
